theory Spec2Isabelle
  imports Complex_Main "HOL-Library.Product_Lexorder"
begin

section \<open>App storage (storage module)\<close>

subsection \<open>Constants\<close>

definition ACTIVITY_CALL :: int where "ACTIVITY_CALL = 1"
definition ACTIVITY_RING :: int where "ACTIVITY_RING = 2"
definition ACTIVITY_SMS :: int where "ACTIVITY_SMS = 3"
definition ACTIVITY_INBOX :: int where "ACTIVITY_INBOX = 4"
definition ACTIVITY_USSD :: int where "ACTIVITY_USSD = 5"
definition ACTIVITY_CUSD :: int where "ACTIVITY_CUSD = 6"

definition PRIORITY_ABOVE :: int where "PRIORITY_ABOVE = 10"
definition PRIORITY_NORMAL :: int where "PRIORITY_NORMAL = 20"
definition PRIORITY_BELOW :: int where "PRIORITY_BELOW = 50"

subsection \<open>Rows\<close>

text \<open>
  Modelled from the spec: the Sequelize models \<^verbatim>\<open>model/GwQueue\<close> and \<^verbatim>\<open>model/GwLog\<close>
  are imported by \<^verbatim>\<open>AppStorage.init\<close> but their files are not part of the sources.
  The columns are the ones the storage and dispatcher code reads and writes
  (the WorkItem and OutcomeLog of the data model). Numeric columns are integers,
  \<open>processed\<close> and \<open>status\<close> hold 0 or 1 as the code writes them, \<open>retry\<close> is a
  nullable integer, \<open>time\<close> is a timestamp in milliseconds. \<open>veto\<close> is not a column:
  it is the property a plugin may set on the in-memory instance.

  The address is the one string whose characters the code inspects (\<^verbatim>\<open>isNaN\<close>,
  \<^verbatim>\<open>length\<close>): it is the list of its UTF-16 code units, so that \<open>length\<close> is the
  \<^verbatim>\<open>length\<close> of the language. \<open>js\<close> gives the code units of an ASCII literal.
\<close>

type_synonym jsstring = "nat list"

definition cu :: "char \<Rightarrow> nat" where
  "cu c = of_char c"

definition js :: "string \<Rightarrow> jsstring" where
  "js s = map cu s"

record gw_queue =
  qid :: int
  imsi :: string
  hash :: string
  type :: int
  address :: jsstring
  data :: string
  priority :: int
  processed :: int
  status :: int
  retry :: "int option"
  time :: int
  veto :: bool

record gw_log =
  l_imsi :: string
  l_hash :: string
  l_type :: int
  l_address :: jsstring
  l_data :: string
  l_status :: int
  l_time :: int

text \<open>
  The plain object handed to \<^verbatim>\<open>saveQueue\<close>: \<open>priority\<close> and \<open>time\<close> may be absent; an
  absent or zero value is falsy and is replaced by the default.
\<close>

record queue_data =
  d_hash :: string
  d_type :: int
  d_address :: jsstring
  d_data :: string
  d_priority :: "int option"
  d_time :: "int option"

text \<open>
  A database call either succeeds or is rejected; the fault says which call of an
  operation is rejected. A completion callback is either never invoked, or invoked
  with a result (\<open>None\<close> for a call without argument).
\<close>

datatype db_fault = NoFault | CountFails | CreateFails

datatype 'a callback = NotCalled | Called "'a option"

subsection \<open>saveQueue\<close>

definition count_queue :: "gw_queue list \<Rightarrow> string \<Rightarrow> string \<Rightarrow> nat" where
  "count_queue store origin h =
     length (filter (\<lambda>r. imsi r = origin \<and> hash r = h) store)"

text \<open>
  Modelled from the spec: \<^verbatim>\<open>GwQueue.create\<close> belongs to the absent model; the new
  row gets a fresh primary key and no retry count.
\<close>

definition fresh_id :: "gw_queue list \<Rightarrow> int" where
  "fresh_id store = fold max (map qid store) 0 + 1"

definition create_queue :: "gw_queue list \<Rightarrow> int \<Rightarrow> string \<Rightarrow> queue_data \<Rightarrow> gw_queue" where
  "create_queue store now origin queue =
     \<lparr> qid = fresh_id store,
       imsi = origin,
       hash = d_hash queue,
       type = d_type queue,
       address = d_address queue,
       data = d_data queue,
       priority = (case d_priority queue of
                     None \<Rightarrow> PRIORITY_NORMAL
                   | Some p \<Rightarrow> if p = 0 then PRIORITY_NORMAL else p),
       processed = 0,
       status = 0,
       retry = None,
       time = (case d_time queue of
                 None \<Rightarrow> now
               | Some t \<Rightarrow> if t = 0 then now else t),
       veto = False \<rparr>"

text \<open>
  \<^verbatim>\<open>saveQueue(origin, queue, done)\<close>: the new store and the call made to \<open>done\<close>.
\<close>

definition saveQueue ::
  "db_fault \<Rightarrow> int \<Rightarrow> string \<Rightarrow> queue_data \<Rightarrow> gw_queue list
     \<Rightarrow> gw_queue list \<times> gw_queue callback" where
  "saveQueue fault now origin queue store =
     (if fault = CountFails then (store, Called None)
      else if count_queue store origin (d_hash queue) = 0 then
        (if fault = CreateFails then (store, Called None)
         else (let result = create_queue store now origin queue
               in (store @ [result], Called (Some result))))
      else (store, Called None))"

text \<open>At most one row per (imsi, hash).\<close>

definition queue_keys :: "gw_queue list \<Rightarrow> (string \<times> string) list" where
  "queue_keys store = map (\<lambda>r. (imsi r, hash r)) store"

subsection \<open>saveLog\<close>

definition count_log :: "gw_log list \<Rightarrow> string \<Rightarrow> string \<Rightarrow> int \<Rightarrow> nat" where
  "count_log logs origin h t =
     length (filter (\<lambda>r. l_imsi r = origin \<and> l_hash r = h \<and> l_type r = t) logs)"

text \<open>
  \<^verbatim>\<open>saveLog(origin, log, done)\<close>: the \<open>log\<close> argument (here \<open>entry\<close>) is the updated queue
  row; the result is the new log table and the call made to \<open>done\<close>. A rejected
  \<^verbatim>\<open>count\<close> is caught and logged; a rejected \<^verbatim>\<open>create\<close> has no handler. Neither calls
  \<open>done\<close>.
\<close>

definition create_log :: "string \<Rightarrow> gw_queue \<Rightarrow> gw_log" where
  "create_log origin entry =
     \<lparr> l_imsi = origin,
       l_hash = hash entry,
       l_type = type entry,
       l_address = address entry,
       l_data = data entry,
       l_status = status entry,
       l_time = time entry \<rparr>"

definition saveLog ::
  "db_fault \<Rightarrow> string \<Rightarrow> gw_queue \<Rightarrow> gw_log list \<Rightarrow> gw_log list \<times> gw_log callback" where
  "saveLog fault origin entry logs =
     (if fault = CountFails then (logs, NotCalled)
      else if count_log logs origin (hash entry) (type entry) = 0 then
        (if fault = CreateFails then (logs, NotCalled)
         else (let result = create_log origin entry
               in (logs @ [result], Called (Some result))))
      else (logs, NotCalled))"

section \<open>Queue dispatcher (dispatcher module)\<close>

subsection \<open>Base dispatcher\<close>

text \<open>
  The fields of \<^verbatim>\<open>AppDispatcher.Dispatcher\<close>. \<open>fetches\<close> is not a field of the object:
  it counts the \<^verbatim>\<open>getQueues\<close> calls whose callback has not run yet, i.e. the fetches
  in flight on the event loop.
\<close>

record dispatcher =
  count :: nat
  queues :: "gw_queue list"
  loading :: bool
  loadTime :: int
  reloadInterval :: int
  fetches :: nat

definition Dispatcher :: "int \<Rightarrow> dispatcher" where
  "Dispatcher now =
     \<lparr> count = 0, queues = [], loading = False, loadTime = now,
       reloadInterval = 5 * 60 * 1000, fetches = 0 \<rparr>"

text \<open>\<^verbatim>\<open>load()\<close> up to the call of \<^verbatim>\<open>getQueues\<close>; the callback is \<open>loaded\<close>.\<close>

definition load :: "'a dispatcher_scheme \<Rightarrow> 'a dispatcher_scheme" where
  "load d =
     (if count d > 0
      then d\<lparr>count := 0, queues := [], loading := True, fetches := fetches d + 1\<rparr>
      else d)"

text \<open>
  The callback given to \<^verbatim>\<open>getQueues\<close>, run when a fetch resolves with \<open>results\<close>;
  the subtype's \<open>check\<close> runs last.
\<close>

definition loaded ::
  "('a dispatcher_scheme \<Rightarrow> 'a dispatcher_scheme) \<Rightarrow> gw_queue list \<Rightarrow> int
     \<Rightarrow> 'a dispatcher_scheme \<Rightarrow> 'a dispatcher_scheme" where
  "loaded check results now d =
     check (d\<lparr>loading := False, loadTime := now, queues := results,
              fetches := fetches d - 1\<rparr>)"

definition reloadNeeded :: "int \<Rightarrow> 'a dispatcher_scheme \<Rightarrow> 'a dispatcher_scheme" where
  "reloadNeeded now d =
     (if count d > 0 \<or> (count d = 0 \<and> length (queues d) = 0) then
        load (if count d = 0 \<and> now - loadTime d \<ge> reloadInterval d \<and> \<not> loading d
              then d\<lparr>count := count d + 1\<rparr> else d)
      else d)"

text \<open>\<^verbatim>\<open>reload()\<close>: one more dirty tick, then the subtype's \<open>check\<close>.\<close>

definition reload ::
  "('a dispatcher_scheme \<Rightarrow> 'a dispatcher_scheme) \<Rightarrow> 'a dispatcher_scheme
     \<Rightarrow> 'a dispatcher_scheme" where
  "reload check d = check (d\<lparr>count := count d + 1\<rparr>)"

subsection \<open>Terminal dispatcher\<close>

text \<open>
  The channel (\<^verbatim>\<open>term\<close>) is owned by the host application; the dispatchers read
  these properties of it.
\<close>

record term_options =
  o_priority :: int
  o_group :: "string option"
  allowCall :: bool
  sendMessage :: bool
  receiveMessage :: bool
  operators :: "string list"

record "term" =
  name :: string
  connected :: bool
  busy :: bool
  reply_success :: bool
  options :: term_options

record terminal = dispatcher +
  terminal_term :: "term"
  maxRetry :: int

definition Terminal :: "int \<Rightarrow> term \<Rightarrow> terminal" where
  "Terminal now t =
     dispatcher.extend (Dispatcher now) \<lparr> terminal_term = t, maxRetry = 3 \<rparr>"

text \<open>The \<^verbatim>\<open>where\<close> clause and the \<^verbatim>\<open>order\<close> of \<^verbatim>\<open>Terminal.getQueues\<close>.
  A comparison with a null \<open>retry\<close> selects nothing, as in SQL.\<close>

definition terminal_where :: "string \<Rightarrow> int \<Rightarrow> gw_queue \<Rightarrow> bool" where
  "terminal_where nm mr r \<longleftrightarrow>
     imsi r = nm \<and>
     ((processed r = 0 \<and>
       type r \<in> set [ACTIVITY_CALL, ACTIVITY_SMS, ACTIVITY_USSD]) \<or>
      (processed r = 1 \<and>
       (case retry r of None \<Rightarrow> False | Some n \<Rightarrow> n \<le> mr) \<and>
       type r = ACTIVITY_SMS \<and>
       status r = 0))"

definition terminal_order :: "gw_queue \<Rightarrow> int \<times> int \<times> int" where
  "terminal_order r = (priority r, processed r, time r)"

definition terminal_getQueues :: "terminal \<Rightarrow> gw_queue list \<Rightarrow> gw_queue list" where
  "terminal_getQueues d store =
     sort_key terminal_order
       (filter (terminal_where (name (terminal_term d)) (maxRetry d)) store)"

text \<open>\<^verbatim>\<open>Terminal.check\<close> emits \<^verbatim>\<open>state\<close> on the connection and leaves the dispatcher as is.\<close>

definition terminal_check :: "terminal \<Rightarrow> terminal" where
  "terminal_check d = d"

text \<open>
  The \<^verbatim>\<open>idle\<close> handler: the new dispatcher and the row handed to \<^verbatim>\<open>process\<close>, if any.
\<close>

definition idle :: "int \<Rightarrow> terminal \<Rightarrow> terminal \<times> gw_queue option" where
  "idle now d =
     (let d1 = reloadNeeded now d in
      if length (queues d1) \<noteq> 0 \<and> \<not> busy (terminal_term d1)
      then (terminal_check (d1\<lparr>queues := tl (queues d1)\<rparr>), Some (hd (queues d1)))
      else (terminal_check d1, None))"

text \<open>The rows handed to \<^verbatim>\<open>process\<close> by \<open>n\<close> successive \<^verbatim>\<open>idle\<close> signals.\<close>

fun drain :: "nat \<Rightarrow> int \<Rightarrow> terminal \<Rightarrow> gw_queue list" where
  "drain 0 now d = []"
| "drain (Suc n) now d =
     (case idle now d of
        (d', None) \<Rightarrow> drain n now d'
      | (d', Some q) \<Rightarrow> q # drain n now d')"

text \<open>
  \<^verbatim>\<open>update(GwQueue, success)\<close>: the row after \<^verbatim>\<open>GwQueue.update(updates)\<close>, and the log
  table after the \<^verbatim>\<open>saveLog\<close> that follows for every type but USSD.
\<close>

definition update :: "term \<Rightarrow> gw_queue \<Rightarrow> bool \<Rightarrow> gw_queue" where
  "update t q success =
     q\<lparr> processed := 1,
        status := (if success then (if reply_success t then 1 else 0) else status q),
        retry := (if \<not> success \<and> type q = ACTIVITY_SMS
                  then Some (case retry q of
                               None \<Rightarrow> 1
                             | Some n \<Rightarrow> if n = 0 then 1 else n + 1)
                  else retry q) \<rparr>"

definition update_log :: "db_fault \<Rightarrow> term \<Rightarrow> gw_queue \<Rightarrow> bool \<Rightarrow> gw_log list \<Rightarrow> gw_log list" where
  "update_log fault t q success logs =
     (let result = update t q success in
      if type q \<noteq> ACTIVITY_USSD then fst (saveLog fault (imsi q) result logs) else logs)"

text \<open>
  What the channel answers during one \<^verbatim>\<open>process\<close> call. A channel operation
  (\<^verbatim>\<open>dial\<close>, \<^verbatim>\<open>sendMessage\<close>, \<^verbatim>\<open>ussd\<close>) returns nothing, or a promise that is
  fulfilled or rejected; \<^verbatim>\<open>query('status', hash)\<close> returns a promise that resolves
  with a reply or is rejected.
\<close>

datatype action = NoAction | Fulfilled | Rejected

record status_reply =
  r_success :: bool
  r_hash :: string
  r_status :: bool

datatype query_outcome = QueryResolved status_reply | QueryRejected

datatype term_op = OpDial | OpSendMessage | OpUssd | OpQuery string

text \<open>The local function \<open>f\<close> of \<^verbatim>\<open>process\<close>.\<close>

definition f :: "term \<Rightarrow> gw_queue \<Rightarrow> action \<Rightarrow> gw_queue" where
  "f t q act =
     (case act of
        NoAction \<Rightarrow> q
      | Fulfilled \<Rightarrow> update t q True
      | Rejected \<Rightarrow> update t q False)"

text \<open>
  \<^verbatim>\<open>process(GwQueue)\<close>: the channel operations invoked, in order, and the row
  afterwards.
\<close>

definition process ::
  "term \<Rightarrow> query_outcome \<Rightarrow> action \<Rightarrow> gw_queue \<Rightarrow> term_op list \<times> gw_queue" where
  "process t qry act q =
     (if type q = ACTIVITY_CALL then ([OpDial], f t q act)
      else if type q = ACTIVITY_SMS then
        (if retry q \<noteq> None then
           (case qry of
              QueryResolved st \<Rightarrow>
                (if r_success st \<and> r_hash st = hash q then
                   (if r_status st
                    then ([OpQuery (hash q)], q\<lparr>status := 1\<rparr>)
                    else ([OpQuery (hash q), OpSendMessage], f t q act))
                 else ([OpQuery (hash q), OpSendMessage], f t q act))
            | QueryRejected \<Rightarrow> ([OpQuery (hash q)], q))
         else ([OpSendMessage], f t q act))
      else if type q = ACTIVITY_USSD then ([OpUssd], f t q act)
      else ([], q))"

subsection \<open>Activity dispatcher\<close>

text \<open>
  The host application (\<^verbatim>\<open>appterm\<close>) as the Activity dispatcher reads it: its
  channels, its socket clients, its plugins and its configuration. A plugin's
  \<open>handle\<close> may change the in-memory row (for instance set \<open>veto\<close>).
\<close>

record gwclient =
  s_id :: string
  s_group :: "string option"

record plugin =
  p_name :: string
  p_group :: "string option"
  handle :: "gw_queue \<Rightarrow> gw_queue"

text \<open>\<open>premiumlen\<close> is a length, a non-negative integer.\<close>

record config =
  blacklists :: "jsstring list option"
  premiumlen :: "nat option"

record appterm =
  terminals :: "term list"
  gwclients :: "gwclient list"
  plugins :: "plugin list"
  app_config :: config

text \<open>\<open>timeout\<close> says whether the one-shot timer of \<^verbatim>\<open>process\<close> is armed.\<close>

record activity = dispatcher +
  activity_appterm :: appterm
  processing :: bool
  timeout :: bool

definition Activity :: "int \<Rightarrow> appterm \<Rightarrow> activity" where
  "Activity now app =
     dispatcher.extend (Dispatcher now)
       \<lparr> activity_appterm = app, processing = False, timeout = False \<rparr>"

definition activity_where :: "gw_queue \<Rightarrow> bool" where
  "activity_where r \<longleftrightarrow>
     processed r = 0 \<and>
     type r \<in> set [ACTIVITY_RING, ACTIVITY_INBOX, ACTIVITY_CUSD]"

definition activity_order :: "gw_queue \<Rightarrow> int \<times> int" where
  "activity_order r = (priority r, time r)"

definition activity_getQueues :: "gw_queue list \<Rightarrow> gw_queue list" where
  "activity_getQueues store = sort_key activity_order (filter activity_where store)"

text \<open>
  \<^verbatim>\<open>Activity.process\<close> as far as it changes the dispatcher at once: it claims the
  single slot when there is work (the row itself is shifted on the next tick and
  handed to \<^verbatim>\<open>processQueue\<close>), and arms the timer when the snapshot is empty.
  \<^verbatim>\<open>Activity.check\<close> does nothing without a channel or without a consumer.
\<close>

definition activity_process :: "activity \<Rightarrow> activity" where
  "activity_process a =
     (let a1 = (if length (queues a) \<noteq> 0 \<and> \<not> processing a
                then a\<lparr>processing := True\<rparr> else a)
      in if length (queues a1) = 0 \<and> \<not> timeout a1 then a1\<lparr>timeout := True\<rparr> else a1)"

definition activity_check :: "int \<Rightarrow> activity \<Rightarrow> activity" where
  "activity_check now a =
     (if length (terminals (activity_appterm a)) \<noteq> 0 then
        (if length (gwclients (activity_appterm a)) = 0 \<and>
            length (plugins (activity_appterm a)) = 0
         then a
         else activity_process (reloadNeeded now a))
      else a)"

text \<open>
  Modelled from the spec: \<^verbatim>\<open>appterm.get(imsi)\<close> is the host's lookup, not part of the
  sources; it resolves the owning channel by its name.
\<close>

definition get :: "appterm \<Rightarrow> string \<Rightarrow> term option" where
  "get app nm = find (\<lambda>t. name t = nm) (terminals app)"

text \<open>
  \<^verbatim>\<open>getTerminal(type, address, group)\<close>: the loop over the channels, each \<^verbatim>\<open>continue\<close>
  a branch that skips the channel. \<open>getOperator\<close> is the host's operator lookup; a
  missing or empty \<open>group\<close> or operator is falsy.
\<close>

definition truthy :: "string option \<Rightarrow> bool" where
  "truthy v \<longleftrightarrow> (case v of None \<Rightarrow> False | Some x \<Rightarrow> x \<noteq> [])"

fun getTerminal ::
  "(jsstring \<Rightarrow> string option) \<Rightarrow> int \<Rightarrow> jsstring \<Rightarrow> string option \<Rightarrow> term list
     \<Rightarrow> term list" where
  "getTerminal getOperator ty addr grp [] = []"
| "getTerminal getOperator ty addr grp (t # ts) =
     (let rest = getTerminal getOperator ty addr grp ts in
      if \<not> connected t then rest
      else if truthy grp \<and> o_group (options t) \<noteq> grp then rest
      else if ty = ACTIVITY_CALL \<and> \<not> allowCall (options t) then rest
      else if ty = ACTIVITY_SMS \<and> \<not> sendMessage (options t) then rest
      else if length (operators (options t)) \<noteq> 0 \<and> ty \<noteq> ACTIVITY_USSD then
        (case getOperator addr of
           None \<Rightarrow> rest
         | Some op \<Rightarrow>
             if op = [] then rest
             else if op \<notin> set (operators (options t)) then rest
             else t # rest)
      else t # rest)"

text \<open>
  \<^verbatim>\<open>add(data, group, cb)\<close>: the channel whose \<^verbatim>\<open>addQueue\<close> is called. \<open>rnd\<close> is the value
  of \<^verbatim>\<open>Math.random()\<close>, a number with \<open>0 \<le> rnd < 1\<close>; an index outside the array
  would be a TypeError.
\<close>

datatype add_result = NoTerminal | AddQueue "term" | TypeError

definition random_index :: "real \<Rightarrow> nat \<Rightarrow> int" where
  "random_index rnd n = \<lfloor>rnd * real n\<rfloor>"

definition add ::
  "(jsstring \<Rightarrow> string option) \<Rightarrow> real \<Rightarrow> queue_data \<Rightarrow> string option \<Rightarrow> term list
     \<Rightarrow> add_result" where
  "add getOperator rnd dat grp ts =
     (let found = getTerminal getOperator (d_type dat) (d_address dat) grp ts in
      if length found = 0 then NoTerminal
      else
        (let sorted_ts = (if length found > 1
                          then sort_key (\<lambda>t. o_priority (options t)) found else found);
             index = (if length found > 1 then random_index rnd (length found) else 0)
         in if 0 \<le> index \<and> index < int (length sorted_ts)
            then AddQueue (sorted_ts ! nat index) else TypeError))"

text \<open>
  \<^verbatim>\<open>isNaN\<close> on a string: the string is not a StringNumericLiteral of the language.
  White space and line terminators are trimmed on both sides (tab, LF, VT, FF, CR,
  space, U+00A0, U+1680, U+2000 to U+200A, U+2028, U+2029, U+202F, U+205F, U+3000,
  U+FEFF); the empty string, decimal literals with sign, fraction and exponent,
  \<^verbatim>\<open>Infinity\<close>, and unsigned hexadecimal, octal and binary literals are numbers.
\<close>

definition isWhiteSpace :: "nat \<Rightarrow> bool" where
  "isWhiteSpace c \<longleftrightarrow>
     c \<in> set [0x09, 0x0A, 0x0B, 0x0C, 0x0D, 0x20, 0xA0, 0x1680, 0x2028, 0x2029,
               0x202F, 0x205F, 0x3000, 0xFEFF] \<or>
     (0x2000 \<le> c \<and> c \<le> 0x200A)"

definition trim :: "jsstring \<Rightarrow> jsstring" where
  "trim s = rev (dropWhile isWhiteSpace (rev (dropWhile isWhiteSpace s)))"

definition isDigit :: "nat \<Rightarrow> bool" where
  "isDigit c \<longleftrightarrow> c \<in> set (js ''0123456789'')"

definition isHexDigit :: "nat \<Rightarrow> bool" where
  "isHexDigit c \<longleftrightarrow> c \<in> set (js ''0123456789abcdefABCDEF'')"

definition isOctalDigit :: "nat \<Rightarrow> bool" where
  "isOctalDigit c \<longleftrightarrow> c \<in> set (js ''01234567'')"

definition isBinaryDigit :: "nat \<Rightarrow> bool" where
  "isBinaryDigit c \<longleftrightarrow> c \<in> set (js ''01'')"

definition digits :: "(nat \<Rightarrow> bool) \<Rightarrow> jsstring \<Rightarrow> bool" where
  "digits P s \<longleftrightarrow> s \<noteq> [] \<and> list_all P s"

definition isExponentPart :: "jsstring \<Rightarrow> bool" where
  "isExponentPart s \<longleftrightarrow>
     (case s of
        [] \<Rightarrow> False
      | e # rest \<Rightarrow>
          (e = cu CHR ''e'' \<or> e = cu CHR ''E'') \<and>
          (case rest of
             [] \<Rightarrow> False
           | sign # ds \<Rightarrow>
               if sign = cu CHR ''+'' \<or> sign = cu CHR ''-'' then digits isDigit ds
               else digits isDigit rest))"

definition isStrUnsignedDecimalLiteral :: "jsstring \<Rightarrow> bool" where
  "isStrUnsignedDecimalLiteral s \<longleftrightarrow>
     s = js ''Infinity'' \<or>
     (let ip = takeWhile isDigit s; r1 = dropWhile isDigit s in
      case r1 of
        [] \<Rightarrow> ip \<noteq> []
      | c # r2 \<Rightarrow>
          if c = cu CHR ''.'' then
            (let fp = takeWhile isDigit r2; r3 = dropWhile isDigit r2 in
             (ip \<noteq> [] \<or> fp \<noteq> []) \<and> (r3 = [] \<or> isExponentPart r3))
          else ip \<noteq> [] \<and> isExponentPart r1)"

definition isStrDecimalLiteral :: "jsstring \<Rightarrow> bool" where
  "isStrDecimalLiteral s \<longleftrightarrow>
     (case s of
        [] \<Rightarrow> False
      | c # r \<Rightarrow>
          if c = cu CHR ''+'' \<or> c = cu CHR ''-'' then isStrUnsignedDecimalLiteral r
          else isStrUnsignedDecimalLiteral s)"

definition isNonDecimalIntegerLiteral :: "jsstring \<Rightarrow> bool" where
  "isNonDecimalIntegerLiteral s \<longleftrightarrow>
     (case s of
        z # x # ds \<Rightarrow>
          z = cu CHR ''0'' \<and>
          ((x \<in> set (js ''xX'') \<and> digits isHexDigit ds) \<or>
           (x \<in> set (js ''oO'') \<and> digits isOctalDigit ds) \<or>
           (x \<in> set (js ''bB'') \<and> digits isBinaryDigit ds))
      | _ \<Rightarrow> False)"

definition isNaN :: "jsstring \<Rightarrow> bool" where
  "isNaN s \<longleftrightarrow>
     (let t = trim s in
      \<not> (t = [] \<or> isStrDecimalLiteral t \<or> isNonDecimalIntegerLiteral t))"

text \<open>
  \<^verbatim>\<open>addressAllowed(address)\<close>: \<open>Some False\<close>, \<open>Some True\<close>, or \<open>None\<close> when the function
  falls off its end (an empty address) and returns \<^verbatim>\<open>undefined\<close>. The two local
  constants are \<^verbatim>\<open>config.blacklists || []\<close> and \<^verbatim>\<open>config.premiumlen || 5\<close>.
\<close>

definition blacklists_or :: "config \<Rightarrow> jsstring list" where
  "blacklists_or cfg = (case blacklists cfg of None \<Rightarrow> [] | Some bs \<Rightarrow> bs)"

definition premiumlen_or :: "config \<Rightarrow> nat" where
  "premiumlen_or cfg =
     (case premiumlen cfg of None \<Rightarrow> 5 | Some n \<Rightarrow> if n = 0 then 5 else n)"

definition addressAllowed :: "config \<Rightarrow> jsstring \<Rightarrow> bool option" where
  "addressAllowed cfg addr =
     (if addr \<noteq> [] then
        (if isNaN addr then Some False
         else if length addr \<le> premiumlen_or cfg then Some False
         else if addr \<in> set (blacklists_or cfg) then Some False
         else Some True)
      else None)"

text \<open>The notification a socket client receives for a row, by type.\<close>

datatype emit =
    EmitRing string jsstring int
  | EmitMessage string jsstring string int
  | EmitUssd string jsstring string int

definition notification :: "gw_queue \<Rightarrow> emit option" where
  "notification q =
     (if type q = ACTIVITY_RING then Some (EmitRing (hash q) (address q) (time q))
      else if type q = ACTIVITY_INBOX
        then Some (EmitMessage (hash q) (address q) (data q) (time q))
      else if type q = ACTIVITY_CUSD
        then Some (EmitUssd (hash q) (address q) (data q) (time q))
      else None)"

fun notify_clients :: "term \<Rightarrow> gw_queue \<Rightarrow> gwclient list \<Rightarrow> (string \<times> emit) list" where
  "notify_clients t q [] = []"
| "notify_clients t q (socket # rest) =
     (if o_group (options t) = s_group socket then
        (case notification q of
           Some e \<Rightarrow> (s_id socket, e) # notify_clients t q rest
         | None \<Rightarrow> notify_clients t q rest)
      else notify_clients t q rest)"

text \<open>
  The callback of \<^verbatim>\<open>plugins.forEach\<close>: the row after the plugin, the names of the
  plugins handled so far, and the callback's return value (\<open>True\<close> for
  \<^verbatim>\<open>return true\<close>). \<^verbatim>\<open>forEach\<close> drops the return value and goes on.
\<close>

definition plugin_callback ::
  "term \<Rightarrow> plugin \<Rightarrow> gw_queue \<times> string list \<Rightarrow> (gw_queue \<times> string list) \<times> bool" where
  "plugin_callback t p acc =
     (case acc of (q, handled) \<Rightarrow>
        if p_group p = None \<or> o_group (options t) = p_group p then
          (let q' = handle p q in
           if veto q' then ((q', handled @ [p_name p]), True)
           else ((q', handled @ [p_name p]), False))
        else ((q, handled), False))"

definition forEach :: "('a \<Rightarrow> 's \<Rightarrow> 's \<times> bool) \<Rightarrow> 'a list \<Rightarrow> 's \<Rightarrow> 's" where
  "forEach cb xs s = fold (\<lambda>x acc. fst (cb x acc)) xs s"

text \<open>
  \<^verbatim>\<open>processQueue(GwQueue, done)\<close> on the queue table: the table afterwards, the
  in-memory row, the notifications sent, the plugins that handled the row, and how
  often \<open>done\<close> was called. \<open>update_ok\<close> says whether \<^verbatim>\<open>GwQueue.update\<close> succeeds.
\<close>

record processed_queue =
  pq_store :: "gw_queue list"
  pq_row :: gw_queue
  pq_emitted :: "(string \<times> emit) list"
  pq_handled :: "string list"
  pq_done :: nat

definition update_row :: "gw_queue list \<Rightarrow> int \<Rightarrow> int \<Rightarrow> int \<Rightarrow> gw_queue list" where
  "update_row store i p s =
     map (\<lambda>r. if qid r = i then r\<lparr>processed := p, status := s\<rparr> else r) store"

text \<open>
  The local variable \<open>processed\<close> of \<^verbatim>\<open>processQueue\<close> once both tests have run: the
  address gate for Ring and Inbox, and the channel's \<open>receiveMessage\<close> for Inbox.
\<close>

definition gate :: "appterm \<Rightarrow> term \<Rightarrow> gw_queue \<Rightarrow> bool" where
  "gate app t q =
     (let p0 = (if type q = ACTIVITY_RING \<or> type q = ACTIVITY_INBOX
                then addressAllowed (app_config app) (address q) = Some True
                else True)
      in if p0 \<and> \<not> receiveMessage (options t) \<and> type q = ACTIVITY_INBOX
         then False else p0)"

definition processQueue ::
  "appterm \<Rightarrow> bool \<Rightarrow> gw_queue list \<Rightarrow> gw_queue \<Rightarrow> processed_queue" where
  "processQueue app update_ok store q =
     (case get app (imsi q) of
        Some t \<Rightarrow>
          (let p = gate app t q;
               emitted = (if p \<and> length (gwclients app) \<noteq> 0
                          then notify_clients t q (gwclients app) else []);
               fan = (if p then forEach (plugin_callback t) (plugins app) (q, [])
                      else (q, []));
               st = (if p then 1 else 0)
           in \<lparr> pq_store = (if update_ok then update_row store (qid q) 1 st else store),
                pq_row = (fst fan)\<lparr>processed := 1, status := st\<rparr>,
                pq_emitted = emitted,
                pq_handled = snd fan,
                pq_done = 1 \<rparr>)
      | None \<Rightarrow>
          \<lparr> pq_store = store, pq_row = q, pq_emitted = [], pq_handled = [], pq_done = 1 \<rparr>)"

section \<open>Derived notions and sample data\<close>

text \<open>Calls of \<^verbatim>\<open>saveQueue\<close> that complete one after another, each given as
  (fault, now, origin, queue).\<close>

fun saveQueues ::
  "(db_fault \<times> int \<times> string \<times> queue_data) list \<Rightarrow> gw_queue list \<Rightarrow> gw_queue list" where
  "saveQueues [] store = store"
| "saveQueues ((fault, now, origin, queue) # calls) store =
     saveQueues calls (fst (saveQueue fault now origin queue store))"

text \<open>The row after \<open>n\<close> consecutive failed attempts, each ending in
  \<^verbatim>\<open>update(GwQueue, false)\<close>.\<close>

definition fails :: "term \<Rightarrow> nat \<Rightarrow> gw_queue \<Rightarrow> gw_queue" where
  "fails t n q = ((\<lambda>r. update t r False) ^^ n) q"

text \<open>
  Eligibility of a channel in the words of the specification: connected; the group
  filter matches if given; \<open>allowCall\<close> for Call; \<open>sendMessage\<close> for SMS; with a
  non-empty operator allow-list and a kind other than USSD, the address resolves to
  an operator of that list.
\<close>

definition eligible ::
  "(jsstring \<Rightarrow> string option) \<Rightarrow> int \<Rightarrow> jsstring \<Rightarrow> string option \<Rightarrow> term \<Rightarrow> bool" where
  "eligible getOperator ty addr grp t \<longleftrightarrow>
     connected t \<and>
     (truthy grp \<longrightarrow> o_group (options t) = grp) \<and>
     (ty = ACTIVITY_CALL \<longrightarrow> allowCall (options t)) \<and>
     (ty = ACTIVITY_SMS \<longrightarrow> sendMessage (options t)) \<and>
     (operators (options t) \<noteq> [] \<and> ty \<noteq> ACTIVITY_USSD \<longrightarrow>
        (case getOperator addr of
           None \<Rightarrow> False
         | Some op \<Rightarrow> op \<noteq> [] \<and> op \<in> set (operators (options t))))"

text \<open>A plugin is in scope of a channel when it has no group or the channel's group.\<close>

definition in_scope :: "term \<Rightarrow> plugin \<Rightarrow> bool" where
  "in_scope t p \<longleftrightarrow> p_group p = None \<or> o_group (options t) = p_group p"

text \<open>Sample data for the concrete instances below.\<close>

definition example_options :: "int \<Rightarrow> term_options" where
  "example_options p =
     \<lparr> o_priority = p, o_group = Some ''G'', allowCall = True, sendMessage = True,
       receiveMessage = True, operators = [] \<rparr>"

definition example_term :: "string \<Rightarrow> int \<Rightarrow> term" where
  "example_term nm p =
     \<lparr> name = nm, connected = True, busy = False, reply_success = True,
       options = example_options p \<rparr>"

definition example_row :: "int \<Rightarrow> int \<Rightarrow> int \<Rightarrow> string \<Rightarrow> gw_queue" where
  "example_row i ty p addr =
     \<lparr> qid = i, imsi = ''510101234567890'', hash = ''h1'', type = ty, address = js addr,
       data = ''hello'', priority = p, processed = 0, status = 0, retry = None,
       time = 1000, veto = False \<rparr>"

definition example_data :: queue_data where
  "example_data =
     \<lparr> d_hash = ''h1'', d_type = ACTIVITY_SMS, d_address = js ''08123456789'',
       d_data = ''hello'', d_priority = None, d_time = None \<rparr>"

definition example_log :: gw_log where
  "example_log =
     \<lparr> l_imsi = ''510101234567890'', l_hash = ''h1'', l_type = ACTIVITY_SMS,
       l_address = js ''08123456789'', l_data = ''hello'', l_status = 0, l_time = 1000 \<rparr>"

definition example_config :: config where
  "example_config = \<lparr> blacklists = Some [js ''08123456789''], premiumlen = None \<rparr>"

definition example_plugins :: "plugin list" where
  "example_plugins =
     [ \<lparr> p_name = ''first'', p_group = None, handle = (\<lambda>q. q\<lparr>veto := True\<rparr>) \<rparr>,
       \<lparr> p_name = ''second'', p_group = Some ''G'',
         handle = (\<lambda>q. q\<lparr>data := data q @ ''+second''\<rparr>) \<rparr>,
       \<lparr> p_name = ''third'', p_group = Some ''H'',
         handle = (\<lambda>q. q\<lparr>data := data q @ ''+third''\<rparr>) \<rparr> ]"

definition example_app :: appterm where
  "example_app =
     \<lparr> terminals = [example_term ''510101234567890'' 20],
       gwclients = [\<lparr> s_id = ''c1'', s_group = Some ''G'' \<rparr>],
       plugins = example_plugins,
       app_config = example_config \<rparr>"

section \<open>Properties of the storage\<close>

lemmas activity_defs =
  ACTIVITY_CALL_def ACTIVITY_RING_def ACTIVITY_SMS_def
  ACTIVITY_INBOX_def ACTIVITY_USSD_def ACTIVITY_CUSD_def

lemma count_queue_zero_iff:
  "count_queue store origin h = 0 \<longleftrightarrow> (origin, h) \<notin> set (queue_keys store)"
  by (auto simp: count_queue_def queue_keys_def filter_empty_conv)

lemma distinct_count_le1:
  "distinct (map k xs) \<Longrightarrow> length (filter (\<lambda>r. k r = v) xs) \<le> 1"
  by (induction xs) (auto simp: filter_empty_conv image_iff)

lemma saveQueue_keeps_distinct:
  "distinct (queue_keys store) \<Longrightarrow>
     distinct (queue_keys (fst (saveQueue fault now origin queue store)))"
  by (auto simp: saveQueue_def Let_def count_queue_zero_iff create_queue_def queue_keys_def)

lemma saveQueues_keep_distinct:
  "distinct (queue_keys store) \<Longrightarrow> distinct (queue_keys (saveQueues calls store))"
proof (induction calls store rule: saveQueues.induct)
  case (1 store)
  then show ?case by simp
next
  case (2 fault now origin queue calls store)
  then show ?case by (simp add: saveQueue_keeps_distinct)
qed

lemma count_queue_le1:
  assumes "distinct (queue_keys store)"
  shows "count_queue store origin h \<le> 1"
proof -
  have "length (filter (\<lambda>r. (imsi r, hash r) = (origin, h)) store) \<le> 1"
    using assms unfolding queue_keys_def by (rule distinct_count_le1)
  then show ?thesis by (simp add: count_queue_def)
qed

lemma saveQueue_existing:
  "\<exists>r\<in>set store. imsi r = origin \<and> hash r = d_hash queue \<Longrightarrow>
     saveQueue fault now origin queue store = (store, Called None)"
  by (auto simp: saveQueue_def Let_def count_queue_def filter_empty_conv)

lemma saveQueue_called: "snd (saveQueue fault now origin queue store) \<noteq> NotCalled"
  by (simp add: saveQueue_def Let_def)

lemma saveLog_existing:
  "\<exists>r\<in>set logs. l_imsi r = origin \<and> l_hash r = hash entry \<and> l_type r = type entry \<Longrightarrow>
     saveLog fault origin entry logs = (logs, NotCalled)"
  by (auto simp: saveLog_def Let_def count_log_def filter_empty_conv)

lemma saveLog_insert:
  assumes "fst (saveLog fault origin entry logs) \<noteq> logs"
  shows "count_log logs origin (hash entry) (type entry) = 0 \<and>
         saveLog fault origin entry logs =
           (logs @ [create_log origin entry], Called (Some (create_log origin entry)))"
  using assms by (simp add: saveLog_def Let_def split: if_splits)

text \<open>
  C2. When a row with the same (imsi, hash) is already in the queue table,
  \<^verbatim>\<open>saveQueue\<close> leaves the table unchanged and calls the completion callback
  without a result, whatever the database does. Hence calls that complete one after
  another keep the keys distinct: starting from the empty table (or from any table
  with distinct keys) there is at most one row per (imsi, hash).
\<close>

theorem saveQueue_dedup:
  "((\<exists>r\<in>set store. imsi r = origin \<and> hash r = d_hash queue) \<longrightarrow>
      saveQueue fault now origin queue store = (store, Called None)) \<and>
   (distinct (queue_keys store) \<longrightarrow> distinct (queue_keys (saveQueues calls store))) \<and>
   count_queue (saveQueues calls []) origin' h \<le> 1"
proof -
  have "distinct (queue_keys (saveQueues calls []))"
    by (rule saveQueues_keep_distinct) (simp add: queue_keys_def)
  then have "count_queue (saveQueues calls []) origin' h \<le> 1"
    by (rule count_queue_le1)
  then show ?thesis
    using saveQueue_existing [of store origin queue fault now]
      saveQueues_keep_distinct [of store calls]
    by blast
qed

theorem saveQueue_dedup_witness:
  "imsi (example_row 1 ACTIVITY_SMS 20 ''08123456789'') = ''510101234567890'' \<and>
   hash (example_row 1 ACTIVITY_SMS 20 ''08123456789'') = d_hash example_data \<and>
   saveQueue NoFault 2000 ''510101234567890'' example_data
       [example_row 1 ACTIVITY_SMS 20 ''08123456789''] =
     ([example_row 1 ACTIVITY_SMS 20 ''08123456789''], Called None) \<and>
   distinct (queue_keys [example_row 1 ACTIVITY_SMS 20 ''08123456789'']) \<and>
   distinct (queue_keys (saveQueues
       [(NoFault, 2000, ''510101234567890'', example_data),
        (NoFault, 3000, ''510101234567890'', example_data)]
       [example_row 1 ACTIVITY_SMS 20 ''08123456789'']))"
proof -
  let ?row = "example_row 1 ACTIVITY_SMS 20 ''08123456789''"
  let ?calls = "[(NoFault, 2000, ''510101234567890'', example_data),
                 (NoFault, 3000, ''510101234567890'', example_data)]"
  have e: "imsi ?row = ''510101234567890'' \<and> hash ?row = d_hash example_data"
    by (simp add: example_row_def example_data_def)
  then have h: "\<exists>r\<in>set [?row]. imsi r = ''510101234567890'' \<and> hash r = d_hash example_data"
    by simp
  have d: "distinct (queue_keys [?row])"
    by (simp add: queue_keys_def)
  note T = saveQueue_dedup [of "[?row]" "''510101234567890''" example_data NoFault 2000 ?calls]
  from T h have 1: "saveQueue NoFault 2000 ''510101234567890'' example_data [?row] =
      ([?row], Called None)"
    by blast
  from T d have 2: "distinct (queue_keys (saveQueues ?calls [?row]))"
    by blast
  show ?thesis using e 1 2 d by blast
qed

text \<open>
  C10. \<^verbatim>\<open>saveLog\<close> changes the log table only by appending one row, and only when no
  row with the same (imsi, hash, type) exists; when such a row exists the table is
  unchanged and \<open>done\<close> is not called. \<^verbatim>\<open>saveQueue\<close> calls its callback in every
  outcome.
\<close>

theorem saveLog_only_when_absent:
  "((\<exists>r\<in>set logs. l_imsi r = origin \<and> l_hash r = hash entry \<and> l_type r = type entry) \<longrightarrow>
      saveLog fault origin entry logs = (logs, NotCalled)) \<and>
   (fst (saveLog fault origin entry logs) \<noteq> logs \<longrightarrow>
      (\<forall>r\<in>set logs. \<not> (l_imsi r = origin \<and> l_hash r = hash entry \<and> l_type r = type entry)) \<and>
      saveLog fault origin entry logs =
        (logs @ [create_log origin entry], Called (Some (create_log origin entry)))) \<and>
   snd (saveQueue fault' now origin' queue store) \<noteq> NotCalled"
proof (intro conjI impI)
  assume "\<exists>r\<in>set logs. l_imsi r = origin \<and> l_hash r = hash entry \<and> l_type r = type entry"
  then show "saveLog fault origin entry logs = (logs, NotCalled)"
    by (rule saveLog_existing)
next
  assume a: "fst (saveLog fault origin entry logs) \<noteq> logs"
  from saveLog_insert [OF a]
  have "count_log logs origin (hash entry) (type entry) = 0" by simp
  then show "\<forall>r\<in>set logs.
      \<not> (l_imsi r = origin \<and> l_hash r = hash entry \<and> l_type r = type entry)"
    by (auto simp: count_log_def filter_empty_conv)
  from saveLog_insert [OF a]
  show "saveLog fault origin entry logs =
          (logs @ [create_log origin entry], Called (Some (create_log origin entry)))"
    by simp
next
  show "snd (saveQueue fault' now origin' queue store) \<noteq> NotCalled"
    by (rule saveQueue_called)
qed

theorem saveLog_only_when_absent_witness:
  "l_imsi example_log = ''510101234567890'' \<and>
   l_hash example_log = hash (example_row 1 ACTIVITY_SMS 20 ''08123456789'') \<and>
   l_type example_log = type (example_row 1 ACTIVITY_SMS 20 ''08123456789'') \<and>
   saveLog NoFault ''510101234567890'' (example_row 1 ACTIVITY_SMS 20 ''08123456789'')
       [example_log] = ([example_log], NotCalled) \<and>
   fst (saveLog NoFault ''510101234567890'' (example_row 1 ACTIVITY_SMS 20 ''08123456789'') [])
     \<noteq> [] \<and>
   saveLog NoFault ''510101234567890'' (example_row 1 ACTIVITY_SMS 20 ''08123456789'') [] =
     ([example_log], Called (Some example_log))"
proof -
  let ?row = "example_row 1 ACTIVITY_SMS 20 ''08123456789''"
  have e: "l_imsi example_log = ''510101234567890'' \<and> l_hash example_log = hash ?row \<and>
           l_type example_log = type ?row"
    by (simp add: example_log_def example_row_def)
  then have h: "\<exists>r\<in>set [example_log]. l_imsi r = ''510101234567890'' \<and>
             l_hash r = hash ?row \<and> l_type r = type ?row"
    by simp
  have n: "fst (saveLog NoFault ''510101234567890'' ?row []) \<noteq> []"
    by (simp add: saveLog_def count_log_def Let_def)
  have c: "create_log ''510101234567890'' ?row = example_log"
    by (simp add: create_log_def example_log_def example_row_def)
  note T1 = saveLog_only_when_absent [of "[example_log]" "''510101234567890''" ?row NoFault]
  note T2 = saveLog_only_when_absent [of "[]" "''510101234567890''" ?row NoFault]
  from T1 h have 1: "saveLog NoFault ''510101234567890'' ?row [example_log] =
      ([example_log], NotCalled)"
    by blast
  from T2 n have "saveLog NoFault ''510101234567890'' ?row [] =
      ([] @ [create_log ''510101234567890'' ?row],
       Called (Some (create_log ''510101234567890'' ?row)))"
    by blast
  then have 2: "saveLog NoFault ''510101234567890'' ?row [] =
      ([example_log], Called (Some example_log))"
    by (simp add: c)
  show ?thesis using e 1 n 2 by blast
qed

section \<open>Properties of the base and terminal dispatchers\<close>

lemma fails_0: "fails t 0 q = q"
  by (simp add: fails_def)

lemma fails_Suc: "fails t (Suc n) q = update t (fails t n q) False"
  by (simp add: fails_def)

lemma fails_fields:
  assumes "type q = ACTIVITY_SMS" "retry q = None" "status q = 0"
  shows "type (fails t (Suc n) q) = ACTIVITY_SMS \<and> imsi (fails t (Suc n) q) = imsi q \<and>
         processed (fails t (Suc n) q) = 1 \<and> status (fails t (Suc n) q) = 0 \<and>
         retry (fails t (Suc n) q) = Some (int (Suc n))"
proof (induction n)
  case 0
  show ?case using assms by (simp add: fails_def update_def)
next
  case (Suc n)
  then show ?case unfolding fails_Suc [of t "Suc n"] by (simp add: update_def)
qed

text \<open>
  C1, as the code has it. An SMS row that starts unprocessed, with no retry count
  and status 0 (failed), is after \<open>maxRetry + 1\<close> consecutive failures processed,
  still failed, and has retry count \<open>maxRetry + 1\<close>. It is selected by the terminal
  snapshot before the first attempt and after each of the first \<open>maxRetry\<close>
  failures, and never once the retry count exceeds \<open>maxRetry\<close>.
\<close>

theorem retry_cap:
  assumes "type q = ACTIVITY_SMS" "retry q = None" "status q = 0" "processed q = 0"
    and "imsi q = nm" and "0 \<le> mr"
  shows "processed (fails t (nat mr + 1) q) = 1 \<and>
         status (fails t (nat mr + 1) q) = 0 \<and>
         retry (fails t (nat mr + 1) q) = Some (mr + 1) \<and>
         (\<forall>n \<le> nat mr. terminal_where nm mr (fails t n q)) \<and>
         (\<forall>n > nat mr. \<not> terminal_where nm mr (fails t n q))"
proof -
  note F = fails_fields [OF assms(1-3), of t]
  have a: "processed (fails t (nat mr + 1) q) = 1 \<and>
         status (fails t (nat mr + 1) q) = 0 \<and>
         retry (fails t (nat mr + 1) q) = Some (mr + 1)"
    using F [of "nat mr"] assms(6) by simp
  have b: "terminal_where nm mr (fails t n q)" if "n \<le> nat mr" for n
  proof (cases n)
    case 0
    then show ?thesis using assms by (simp add: fails_0 terminal_where_def)
  next
    case (Suc k)
    then show ?thesis using F [of k] that assms(5,6) by (simp add: terminal_where_def)
  qed
  have c: "\<not> terminal_where nm mr (fails t n q)" if "n > nat mr" for n
  proof (cases n)
    case 0
    then show ?thesis using that by simp
  next
    case (Suc k)
    then show ?thesis using F [of k] that assms(6) by (auto simp: terminal_where_def)
  qed
  show ?thesis using a b c by blast
qed

theorem retry_cap_witness:
  "maxRetry (Terminal 0 (example_term ''510101234567890'' 20)) = 3 \<and>
   processed (fails (example_term ''510101234567890'' 20) 4
     (example_row 1 ACTIVITY_SMS 20 ''08123456789'')) = 1 \<and>
   status (fails (example_term ''510101234567890'' 20) 4
     (example_row 1 ACTIVITY_SMS 20 ''08123456789'')) = 0 \<and>
   retry (fails (example_term ''510101234567890'' 20) 4
     (example_row 1 ACTIVITY_SMS 20 ''08123456789'')) = Some 4 \<and>
   terminal_where ''510101234567890'' 3 (fails (example_term ''510101234567890'' 20) 3
     (example_row 1 ACTIVITY_SMS 20 ''08123456789'')) \<and>
   \<not> terminal_where ''510101234567890'' 3 (fails (example_term ''510101234567890'' 20) 4
     (example_row 1 ACTIVITY_SMS 20 ''08123456789''))"
proof -
  let ?q = "example_row 1 ACTIVITY_SMS 20 ''08123456789''"
  let ?t = "example_term ''510101234567890'' 20"
  have h: "type ?q = ACTIVITY_SMS" "retry ?q = None" "status ?q = 0" "processed ?q = 0"
    "imsi ?q = ''510101234567890''" "(0::int) \<le> 3"
    by (simp_all add: example_row_def)
  note T = retry_cap [OF h, of ?t]
  have m: "maxRetry (Terminal 0 ?t) = 3"
    by (simp add: Terminal_def dispatcher.extend_def Dispatcher_def)
  from T have a: "processed (fails ?t 4 ?q) = 1 \<and> status (fails ?t 4 ?q) = 0 \<and>
      retry (fails ?t 4 ?q) = Some 4"
    by simp
  from T have "\<forall>n \<le> nat 3. terminal_where ''510101234567890'' 3 (fails ?t n ?q)"
    by blast
  from this [rule_format, of 3]
  have b: "terminal_where ''510101234567890'' 3 (fails ?t 3 ?q)" by simp
  from T have "\<forall>n > nat 3. \<not> terminal_where ''510101234567890'' 3 (fails ?t n ?q)"
    by blast
  from this [rule_format, of 4]
  have c: "\<not> terminal_where ''510101234567890'' 3 (fails ?t 4 ?q)" by simp
  show ?thesis using m a b c by blast
qed

text \<open>
  C1 as stated fails: with \<open>maxRetry = 3\<close>, four consecutive failures leave the
  retry count at 4, not at 3.
\<close>

theorem retry_cap_counterexample:
  "maxRetry (Terminal 0 (example_term ''510101234567890'' 20)) = 3 \<and>
   retry (fails (example_term ''510101234567890'' 20) (3 + 1)
     (example_row 1 ACTIVITY_SMS 20 ''08123456789'')) = Some 4 \<and>
   retry (fails (example_term ''510101234567890'' 20) (3 + 1)
     (example_row 1 ACTIVITY_SMS 20 ''08123456789'')) \<noteq> Some 3"
  by (simp add: Terminal_def dispatcher.extend_def Dispatcher_def fails_def update_def
      example_row_def eval_nat_numeral)

text \<open>
  An SMS row with a retry count whose status query resolves: the query comes first;
  a reply with success, the row's hash and a true status marks the row
  \<open>status = 1\<close> without a send; any other reply, also one with \<open>success = False\<close>, is
  followed by \<^verbatim>\<open>sendMessage\<close>.
\<close>

lemma process_retry_resolved:
  assumes "type q = ACTIVITY_SMS" "retry q \<noteq> None"
  shows "process t (QueryResolved st) act q =
           (if r_success st \<and> r_hash st = hash q \<and> r_status st
            then ([OpQuery (hash q)], q\<lparr>status := 1\<rparr>)
            else ([OpQuery (hash q), OpSendMessage], f t q act))"
  using assms by (simp add: process_def activity_defs)

text \<open>
  C3 asks for a resend when the status query itself fails. When the query promise
  is rejected the code runs no handler: after the query nothing is sent and the row
  stays as it was, here for a processed SMS row with retry count 1.
\<close>

theorem process_query_rejected:
  "process (example_term ''510101234567890'' 20) QueryRejected Fulfilled
     ((example_row 1 ACTIVITY_SMS 20 ''08123456789'')\<lparr>processed := 1, retry := Some 1\<rparr>) =
   ([OpQuery ''h1''],
    (example_row 1 ACTIVITY_SMS 20 ''08123456789'')\<lparr>processed := 1, retry := Some 1\<rparr>)"
  by (simp add: process_def example_row_def activity_defs)

text \<open>
  C4, as the code has it. \<^verbatim>\<open>load\<close> is guarded by the dirty counter, not by the
  \<open>loading\<close> flag: with \<open>count > 0\<close> it starts a fetch, and has then reset the
  counter, cleared the snapshot and set \<open>loading\<close> before the fetch resolves; with
  \<open>count = 0\<close> it does nothing, and while \<open>loading\<close> holds \<^verbatim>\<open>reloadNeeded\<close> does nothing
  either.
\<close>

theorem load_guard:
  "(0 < count d \<longrightarrow>
      fetches (load d) = fetches d + 1 \<and> count (load d) = 0 \<and>
      queues (load d) = [] \<and> loading (load d)) \<and>
   (count d = 0 \<longrightarrow> load d = d \<and> (loading d \<longrightarrow> reloadNeeded now d = d))"
  by (simp add: load_def reloadNeeded_def)

theorem load_guard_witness:
  "0 < count (reload terminal_check (Terminal 0 (example_term ''510101234567890'' 20))) \<and>
   fetches (load (reload terminal_check (Terminal 0 (example_term ''510101234567890'' 20)))) = 1 \<and>
   count (load (reload terminal_check (Terminal 0 (example_term ''510101234567890'' 20)))) = 0 \<and>
   queues (load (reload terminal_check (Terminal 0 (example_term ''510101234567890'' 20)))) = [] \<and>
   loading (load (reload terminal_check (Terminal 0 (example_term ''510101234567890'' 20)))) \<and>
   reloadNeeded 400000
       (load (reload terminal_check (Terminal 0 (example_term ''510101234567890'' 20)))) =
     load (reload terminal_check (Terminal 0 (example_term ''510101234567890'' 20)))"
proof -
  let ?d = "reload terminal_check (Terminal 0 (example_term ''510101234567890'' 20))"
  have c: "0 < count ?d" and f: "fetches ?d = 0"
    by (simp_all add: reload_def terminal_check_def Terminal_def dispatcher.extend_def
        Dispatcher_def)
  from load_guard [of ?d] c f
  have 1: "fetches (load ?d) = 1 \<and> count (load ?d) = 0 \<and> queues (load ?d) = [] \<and>
           loading (load ?d)"
    by simp
  from load_guard [of "load ?d" 400000] 1
  have 2: "reloadNeeded 400000 (load ?d) = load ?d"
    by simp
  show ?thesis using c 1 2 by blast
qed

text \<open>
  C4 as stated fails. On a terminal dispatcher, after a first \<^verbatim>\<open>reload\<close> and \<^verbatim>\<open>idle\<close> a
  fetch is in flight (\<open>loading\<close> holds); a second \<^verbatim>\<open>reload\<close> followed by \<^verbatim>\<open>load\<close>,
  \<^verbatim>\<open>reloadNeeded\<close> or the next \<^verbatim>\<open>idle\<close> starts a second fetch before the first has
  resolved. On the activity dispatcher the second \<^verbatim>\<open>reload\<close> alone does so.
\<close>

theorem load_guard_counterexample:
  "loading (fst (idle 0 (reload terminal_check
      (Terminal 0 (example_term ''510101234567890'' 20))))) \<and>
   fetches (fst (idle 0 (reload terminal_check
      (Terminal 0 (example_term ''510101234567890'' 20))))) = 1 \<and>
   fetches (load (reload terminal_check (fst (idle 0 (reload terminal_check
      (Terminal 0 (example_term ''510101234567890'' 20))))))) = 2 \<and>
   fetches (reloadNeeded 1 (reload terminal_check (fst (idle 0 (reload terminal_check
      (Terminal 0 (example_term ''510101234567890'' 20))))))) = 2 \<and>
   fetches (fst (idle 1 (reload terminal_check (fst (idle 0 (reload terminal_check
      (Terminal 0 (example_term ''510101234567890'' 20)))))))) = 2 \<and>
   loading (reload (activity_check 0) (Activity 0 example_app)) \<and>
   fetches (reload (activity_check 0) (Activity 0 example_app)) = 1 \<and>
   fetches (reload (activity_check 1) (reload (activity_check 0) (Activity 0 example_app))) = 2"
  by (simp add: idle_def reload_def terminal_check_def Terminal_def Dispatcher_def
      reloadNeeded_def load_def dispatcher.extend_def Let_def example_term_def
      activity_check_def activity_process_def Activity_def example_app_def
      example_plugins_def)

lemma drain_all:
  "count d = 0 \<Longrightarrow> \<not> busy (terminal_term d) \<Longrightarrow> queues d = qs \<Longrightarrow>
     drain (length qs) now d = qs"
proof (induction qs arbitrary: d)
  case Nil
  then show ?case by simp
next
  case (Cons q qs)
  have "idle now d = (d\<lparr>queues := qs\<rparr>, Some q)"
    using Cons.prems by (simp add: idle_def reloadNeeded_def terminal_check_def Let_def)
  moreover have "drain (length qs) now (d\<lparr>queues := qs\<rparr>) = qs"
    using Cons.prems by (intro Cons.IH) simp_all
  ultimately show ?case by simp
qed

lemma terminal_getQueues_sorted:
  "sorted_wrt (\<lambda>x y. priority x < priority y \<or> priority x = priority y \<and>
      (processed x < processed y \<or> processed x = processed y \<and> time x \<le> time y))
     (terminal_getQueues d store)"
proof -
  have "sorted (map terminal_order (terminal_getQueues d store))"
    by (simp add: terminal_getQueues_def)
  then have "sorted_wrt (\<lambda>x y. terminal_order x \<le> terminal_order y)
      (terminal_getQueues d store)"
    by (simp add: sorted_map)
  then show ?thesis
    by (rule sorted_wrt_mono_rel [rotated])
      (auto simp: terminal_order_def less_eq_prod_def less_prod_def)
qed

lemma terminal_getQueues_three:
  assumes "terminal_where (name (terminal_term d)) (maxRetry d) a"
    and "terminal_where (name (terminal_term d)) (maxRetry d) b"
    and "terminal_where (name (terminal_term d)) (maxRetry d) c"
    and "priority a = 50" "priority b = 10" "priority c = 20"
  shows "terminal_getQueues d [a, b, c] = [b, c, a]"
  using assms
  by (simp add: terminal_getQueues_def terminal_order_def less_eq_prod_def less_prod_def)

lemma drain_loaded:
  assumes "count d = 0" "\<not> busy (terminal_term d)"
  shows "drain (length results) now (loaded terminal_check results now' d) = results"
  by (rule drain_all) (simp_all add: assms loaded_def terminal_check_def)

text \<open>
  C5. The snapshot of a terminal dispatcher holds exactly the rows of its channel
  that are unprocessed of type Call, SMS or USSD, or processed failed SMS with a
  retry count of at most \<open>maxRetry\<close>; it is ordered by priority, then processed, then
  time, all ascending; successive \<^verbatim>\<open>idle\<close> signals of a channel that is not busy hand
  the rows to \<^verbatim>\<open>process\<close> in that order. In particular three selected rows with
  priorities 50, 10, 20 and equal times are drained as 10, 20, 50.
\<close>

theorem terminal_snapshot:
  "set (terminal_getQueues d store) =
     {r \<in> set store. imsi r = name (terminal_term d) \<and>
        ((processed r = 0 \<and>
          (type r = ACTIVITY_CALL \<or> type r = ACTIVITY_SMS \<or> type r = ACTIVITY_USSD)) \<or>
         (processed r = 1 \<and> (\<exists>n. retry r = Some n \<and> n \<le> maxRetry d) \<and>
          type r = ACTIVITY_SMS \<and> status r = 0))} \<and>
   length (terminal_getQueues d store) =
     length (filter (terminal_where (name (terminal_term d)) (maxRetry d)) store) \<and>
   sorted_wrt (\<lambda>x y. priority x < priority y \<or> priority x = priority y \<and>
      (processed x < processed y \<or> processed x = processed y \<and> time x \<le> time y))
     (terminal_getQueues d store) \<and>
   (count d = 0 \<and> \<not> busy (terminal_term d) \<longrightarrow>
      drain (length (terminal_getQueues d store)) now
        (loaded terminal_check (terminal_getQueues d store) now' d) =
      terminal_getQueues d store) \<and>
   (terminal_where (name (terminal_term d)) (maxRetry d) a \<and>
    terminal_where (name (terminal_term d)) (maxRetry d) b \<and>
    terminal_where (name (terminal_term d)) (maxRetry d) c \<and>
    priority a = 50 \<and> priority b = 10 \<and> priority c = 20 \<and>
    time a = time b \<and> time b = time c \<and>
    count d = 0 \<and> \<not> busy (terminal_term d) \<longrightarrow>
      map priority (drain 3 now
        (loaded terminal_check (terminal_getQueues d [a, b, c]) now' d)) = [10, 20, 50])"
proof (intro conjI impI)
  show "set (terminal_getQueues d store) =
     {r \<in> set store. imsi r = name (terminal_term d) \<and>
        ((processed r = 0 \<and>
          (type r = ACTIVITY_CALL \<or> type r = ACTIVITY_SMS \<or> type r = ACTIVITY_USSD)) \<or>
         (processed r = 1 \<and> (\<exists>n. retry r = Some n \<and> n \<le> maxRetry d) \<and>
          type r = ACTIVITY_SMS \<and> status r = 0))}"
    by (auto simp: terminal_getQueues_def terminal_where_def split: option.splits)
  show "length (terminal_getQueues d store) =
     length (filter (terminal_where (name (terminal_term d)) (maxRetry d)) store)"
    by (simp add: terminal_getQueues_def)
  show "sorted_wrt (\<lambda>x y. priority x < priority y \<or> priority x = priority y \<and>
      (processed x < processed y \<or> processed x = processed y \<and> time x \<le> time y))
     (terminal_getQueues d store)"
    by (rule terminal_getQueues_sorted)
next
  assume "count d = 0 \<and> \<not> busy (terminal_term d)"
  then show "drain (length (terminal_getQueues d store)) now
        (loaded terminal_check (terminal_getQueues d store) now' d) =
      terminal_getQueues d store"
    by (simp add: drain_loaded)
next
  assume h: "terminal_where (name (terminal_term d)) (maxRetry d) a \<and>
    terminal_where (name (terminal_term d)) (maxRetry d) b \<and>
    terminal_where (name (terminal_term d)) (maxRetry d) c \<and>
    priority a = 50 \<and> priority b = 10 \<and> priority c = 20 \<and>
    time a = time b \<and> time b = time c \<and>
    count d = 0 \<and> \<not> busy (terminal_term d)"
  then have g: "terminal_getQueues d [a, b, c] = [b, c, a]"
    by (simp add: terminal_getQueues_three)
  have l: "length [b, c, a] = 3" by simp
  have "drain (length [b, c, a]) now (loaded terminal_check [b, c, a] now' d) = [b, c, a]"
    using h by (intro drain_loaded) simp_all
  then have "drain 3 now (loaded terminal_check [b, c, a] now' d) = [b, c, a]"
    unfolding l .
  then show "map priority (drain 3 now
        (loaded terminal_check (terminal_getQueues d [a, b, c]) now' d)) = [10, 20, 50]"
    using h g by simp
qed

theorem terminal_snapshot_witness:
  "count (Terminal 0 (example_term ''510101234567890'' 20)) = 0 \<and>
   \<not> busy (terminal_term (Terminal 0 (example_term ''510101234567890'' 20))) \<and>
   priority (example_row 1 ACTIVITY_SMS 50 ''08123456789'') = 50 \<and>
   priority (example_row 2 ACTIVITY_SMS 10 ''08123456789'') = 10 \<and>
   priority (example_row 3 ACTIVITY_SMS 20 ''08123456789'') = 20 \<and>
   map priority (drain 3 7
     (loaded terminal_check
        (terminal_getQueues (Terminal 0 (example_term ''510101234567890'' 20))
           [example_row 1 ACTIVITY_SMS 50 ''08123456789'',
            example_row 2 ACTIVITY_SMS 10 ''08123456789'',
            example_row 3 ACTIVITY_SMS 20 ''08123456789'']) 5
        (Terminal 0 (example_term ''510101234567890'' 20)))) = [10, 20, 50]"
proof -
  let ?d = "Terminal 0 (example_term ''510101234567890'' 20)"
  let ?a = "example_row 1 ACTIVITY_SMS 50 ''08123456789''"
  let ?b = "example_row 2 ACTIVITY_SMS 10 ''08123456789''"
  let ?c = "example_row 3 ACTIVITY_SMS 20 ''08123456789''"
  have d: "count ?d = 0 \<and> \<not> busy (terminal_term ?d)"
    by (simp add: Terminal_def dispatcher.extend_def Dispatcher_def example_term_def)
  have w: "terminal_where (name (terminal_term ?d)) (maxRetry ?d) ?a \<and>
           terminal_where (name (terminal_term ?d)) (maxRetry ?d) ?b \<and>
           terminal_where (name (terminal_term ?d)) (maxRetry ?d) ?c"
    by (simp add: Terminal_def dispatcher.extend_def Dispatcher_def example_term_def
        example_row_def terminal_where_def)
  have p: "priority ?a = 50 \<and> priority ?b = 10 \<and> priority ?c = 20 \<and>
           time ?a = time ?b \<and> time ?b = time ?c"
    by (simp add: example_row_def)
  from terminal_snapshot [of ?d "[]" 7 5 ?a ?b ?c] d w p
  have "map priority (drain 3 7
      (loaded terminal_check (terminal_getQueues ?d [?a, ?b, ?c]) 5 ?d)) = [10, 20, 50]"
    by blast
  then show ?thesis using d p by blast
qed

section \<open>Properties of the activity dispatcher\<close>

lemma getTerminal_filter:
  "getTerminal getOperator ty addr grp ts = filter (eligible getOperator ty addr grp) ts"
  by (induction ts) (auto simp: eligible_def Let_def split: option.splits)

lemma random_index_range:
  assumes "0 \<le> rnd" "rnd < 1" "0 < n"
  shows "0 \<le> random_index rnd n \<and> random_index rnd n < int n"
proof -
  have "rnd * real n < real n" using assms by simp
  then have "\<lfloor>rnd * real n\<rfloor> < int n" by (simp add: floor_less_iff)
  moreover have "0 \<le> rnd * real n" using assms by simp
  ultimately show ?thesis by (simp add: random_index_def)
qed

lemma random_index_iff:
  assumes "0 < n"
  shows "random_index rnd n = int i \<longleftrightarrow>
           real i / real n \<le> rnd \<and> rnd < (real i + 1) / real n"
proof -
  have n: "0 < real n" using assms by simp
  have "random_index rnd n = int i \<longleftrightarrow> real i \<le> rnd * real n \<and> rnd * real n < real i + 1"
    by (simp add: random_index_def floor_eq_iff)
  also have "\<dots> \<longleftrightarrow> real i / real n \<le> rnd \<and> rnd < (real i + 1) / real n"
    using n by (simp add: pos_divide_le_eq pos_less_divide_eq)
  finally show ?thesis .
qed

lemma add_eligible:
  assumes a: "add getOperator rnd dat grp ts = AddQueue t"
  shows "t \<in> set (getTerminal getOperator (d_type dat) (d_address dat) grp ts)"
proof -
  let ?found = "getTerminal getOperator (d_type dat) (d_address dat) grp ts"
  let ?n = "length ?found"
  let ?srt = "sort_key (\<lambda>t. o_priority (options t)) ?found"
  show ?thesis
  proof (cases "?n > 1")
    case True
    let ?idx = "random_index rnd ?n"
    from a True have t: "0 \<le> ?idx \<and> ?idx < int ?n \<and> t = ?srt ! nat ?idx"
      by (simp add: add_def Let_def split: if_splits)
    then have "nat ?idx < length ?srt" by (simp add: nat_less_iff)
    then have "?srt ! nat ?idx \<in> set ?srt" by (rule nth_mem)
    then show ?thesis using t by simp
  next
    case False
    with a have "?found \<noteq> [] \<and> t = ?found ! 0"
      by (simp add: add_def Let_def split: if_splits)
    then show ?thesis by (cases ?found) auto
  qed
qed

lemma add_many:
  assumes "0 \<le> rnd" "rnd < 1"
    and "1 < length (getTerminal getOperator (d_type dat) (d_address dat) grp ts)"
  shows "add getOperator rnd dat grp ts =
           AddQueue (sort_key (\<lambda>t. o_priority (options t))
             (getTerminal getOperator (d_type dat) (d_address dat) grp ts) !
               nat (random_index rnd
                 (length (getTerminal getOperator (d_type dat) (d_address dat) grp ts))))"
proof -
  let ?found = "getTerminal getOperator (d_type dat) (d_address dat) grp ts"
  have "0 < length ?found" using assms(3) by linarith
  moreover have "?found \<noteq> []" using assms(3) by (cases ?found) simp_all
  ultimately show ?thesis
    using random_index_range [OF assms(1,2), of "length ?found"] assms(3)
    by (simp add: add_def Let_def)
qed

lemma add_single:
  assumes "length (getTerminal getOperator (d_type dat) (d_address dat) grp ts) = 1"
  shows "add getOperator rnd dat grp ts =
           AddQueue (hd (getTerminal getOperator (d_type dat) (d_address dat) grp ts))"
proof -
  let ?found = "getTerminal getOperator (d_type dat) (d_address dat) grp ts"
  from assms obtain x where "?found = [x]"
    by (cases ?found) auto
  then show ?thesis by (simp add: add_def Let_def)
qed

lemma add_reaches:
  assumes "t \<in> set (getTerminal getOperator (d_type dat) (d_address dat) grp ts)"
  shows "\<exists>rnd. 0 \<le> rnd \<and> rnd < 1 \<and> add getOperator rnd dat grp ts = AddQueue t"
proof -
  let ?found = "getTerminal getOperator (d_type dat) (d_address dat) grp ts"
  let ?n = "length ?found"
  let ?sorted = "if ?n > 1 then sort_key (\<lambda>t. o_priority (options t)) ?found else ?found"
  have n: "0 < ?n" using assms by (cases ?found) auto
  have "t \<in> set ?sorted" using assms by simp
  then obtain i where i: "i < length ?sorted" "?sorted ! i = t"
    by (meson in_set_conv_nth)
  have len: "length ?sorted = ?n" by simp
  let ?r = "real i / real ?n"
  have r: "0 \<le> ?r" "?r < 1" using i n len by simp_all
  have idx: "random_index ?r ?n = int i"
    using n by (simp add: random_index_def)
  have "add getOperator ?r dat grp ts = AddQueue t"
  proof (cases "?n > 1")
    case True
    then have "?found \<noteq> []" by auto
    then show ?thesis using True i idx by (simp add: add_def Let_def)
  next
    case False
    then have "i = 0" using i len by simp
    then show ?thesis using False i n by (simp add: add_def Let_def)
  qed
  then show ?thesis using r by blast
qed

text \<open>
  C6. \<^verbatim>\<open>getTerminal\<close> returns exactly the eligible channels, and \<^verbatim>\<open>add\<close> dispatches only
  to one of them. With one eligible channel that channel is taken; with more, the
  eligible channels are sorted by ascending priority and the one at index
  \<open>floor (rnd * length)\<close> is taken, for the draw \<open>rnd\<close> with \<open>0 \<le> rnd < 1\<close>. Every
  eligible channel is selected by some draw, and each index \<open>i\<close> is hit exactly by
  the draws of the interval from \<open>i / n\<close> to \<open>(i + 1) / n\<close>, of the same length for
  every index.
\<close>

theorem add_selects_eligible:
  "getTerminal getOperator ty addr grp ts = filter (eligible getOperator ty addr grp) ts \<and>
   (add getOperator rnd dat grp ts = AddQueue t \<longrightarrow>
      t \<in> set ts \<and> eligible getOperator (d_type dat) (d_address dat) grp t) \<and>
   (length (getTerminal getOperator (d_type dat) (d_address dat) grp ts) = 1 \<longrightarrow>
      add getOperator rnd dat grp ts =
        AddQueue (hd (getTerminal getOperator (d_type dat) (d_address dat) grp ts))) \<and>
   (0 \<le> rnd \<and> rnd < 1 \<and>
    1 < length (getTerminal getOperator (d_type dat) (d_address dat) grp ts) \<longrightarrow>
      add getOperator rnd dat grp ts =
        AddQueue (sort_key (\<lambda>t. o_priority (options t))
          (getTerminal getOperator (d_type dat) (d_address dat) grp ts) !
            nat (random_index rnd
              (length (getTerminal getOperator (d_type dat) (d_address dat) grp ts))))) \<and>
   (\<forall>t'\<in>set (getTerminal getOperator (d_type dat) (d_address dat) grp ts).
      \<exists>r. 0 \<le> r \<and> r < 1 \<and> add getOperator r dat grp ts = AddQueue t') \<and>
   (0 < n \<longrightarrow>
      (random_index rnd n = int i \<longleftrightarrow>
         real i / real n \<le> rnd \<and> rnd < (real i + 1) / real n))"
proof (intro conjI impI ballI)
  show "getTerminal getOperator ty addr grp ts = filter (eligible getOperator ty addr grp) ts"
    by (rule getTerminal_filter)
next
  assume "add getOperator rnd dat grp ts = AddQueue t"
  then have "t \<in> set (getTerminal getOperator (d_type dat) (d_address dat) grp ts)"
    by (rule add_eligible)
  then show "t \<in> set ts" "eligible getOperator (d_type dat) (d_address dat) grp t"
    by (simp_all add: getTerminal_filter)
next
  assume "length (getTerminal getOperator (d_type dat) (d_address dat) grp ts) = 1"
  then show "add getOperator rnd dat grp ts =
        AddQueue (hd (getTerminal getOperator (d_type dat) (d_address dat) grp ts))"
    by (rule add_single)
next
  assume "0 \<le> rnd \<and> rnd < 1 \<and>
    1 < length (getTerminal getOperator (d_type dat) (d_address dat) grp ts)"
  then show "add getOperator rnd dat grp ts =
        AddQueue (sort_key (\<lambda>t. o_priority (options t))
          (getTerminal getOperator (d_type dat) (d_address dat) grp ts) !
            nat (random_index rnd
              (length (getTerminal getOperator (d_type dat) (d_address dat) grp ts))))"
    by (simp add: add_many)
next
  fix t'
  assume "t' \<in> set (getTerminal getOperator (d_type dat) (d_address dat) grp ts)"
  then show "\<exists>r. 0 \<le> r \<and> r < 1 \<and> add getOperator r dat grp ts = AddQueue t'"
    by (rule add_reaches)
next
  assume "0 < n"
  then show "random_index rnd n = int i \<longleftrightarrow>
         real i / real n \<le> rnd \<and> rnd < (real i + 1) / real n"
    by (rule random_index_iff)
qed

theorem add_selects_eligible_witness:
  "(0::real) \<le> 5 / 6 \<and> (5::real) / 6 < 1 \<and>
   length (getTerminal (\<lambda>a. None) (d_type example_data) (d_address example_data) None
     [example_term ''A'' 10, example_term ''B'' 10, example_term ''C'' 20]) = 3 \<and>
   random_index (5 / 6) 3 = 2 \<and>
   add (\<lambda>a. None) (5 / 6) example_data None
     [example_term ''A'' 10, example_term ''B'' 10, example_term ''C'' 20] =
     AddQueue (example_term ''C'' 20) \<and>
   eligible (\<lambda>a. None) (d_type example_data) (d_address example_data) None
     (example_term ''C'' 20)"
proof -
  let ?ts = "[example_term ''A'' 10, example_term ''B'' 10, example_term ''C'' 20]"
  let ?found = "getTerminal (\<lambda>a. None) (d_type example_data) (d_address example_data) None ?ts"
  have g: "?found = ?ts"
    by (simp add: example_term_def example_options_def example_data_def truthy_def)
  have s: "sort_key (\<lambda>t. o_priority (options t)) ?ts = ?ts"
    by (simp add: example_term_def example_options_def)
  have r: "random_index (5 / 6) 3 = 2"
    by (simp add: random_index_def)
  have b: "(0::real) \<le> 5 / 6 \<and> (5::real) / 6 < 1" by simp
  note T = add_selects_eligible [of "\<lambda>a. None" "d_type example_data" "d_address example_data"
      None ?ts "5 / 6" example_data "example_term ''C'' 20" 3 2]
  note T2 = T [THEN conjunct2, THEN conjunct1]
  note T4 = T [THEN conjunct2, THEN conjunct2, THEN conjunct2, THEN conjunct1]
  have l3: "length ?ts = 3" by simp
  have l: "length ?found = 3" unfolding g by (rule l3)
  then have "1 < length ?found" by simp
  with T4 b have "add (\<lambda>a. None) (5 / 6) example_data None ?ts =
      AddQueue (sort_key (\<lambda>t. o_priority (options t)) ?found !
        nat (random_index (5 / 6) (length ?found)))"
    by blast
  then have "add (\<lambda>a. None) (5 / 6) example_data None ?ts =
      AddQueue (?ts ! nat (random_index (5 / 6) 3))"
    unfolding g s l3 .
  then have a: "add (\<lambda>a. None) (5 / 6) example_data None ?ts = AddQueue (example_term ''C'' 20)"
    by (simp only: r) simp
  with T2 have e: "eligible (\<lambda>a. None) (d_type example_data) (d_address example_data) None
     (example_term ''C'' 20)"
    by blast
  show ?thesis using b l r a e by blast
qed

lemma premiumlen_or_pos: "0 < premiumlen_or cfg"
  by (simp add: premiumlen_or_def split: option.splits)

lemma addressAllowed_iff:
  "addressAllowed cfg addr = Some True \<longleftrightarrow>
     \<not> isNaN addr \<and> premiumlen_or cfg < length addr \<and> addr \<notin> set (blacklists_or cfg)"
  using premiumlen_or_pos [of cfg] by (auto simp: addressAllowed_def)

lemma addressAllowed_result:
  "addressAllowed cfg addr =
     (if addr = [] then None
      else Some (\<not> isNaN addr \<and> premiumlen_or cfg < length addr \<and>
                 addr \<notin> set (blacklists_or cfg)))"
  by (auto simp: addressAllowed_def)

lemmas isNaN_defs =
  isNaN_def trim_def isWhiteSpace_def isStrDecimalLiteral_def
  isStrUnsignedDecimalLiteral_def isNonDecimalIntegerLiteral_def isExponentPart_def
  isDigit_def isHexDigit_def isOctalDigit_def isBinaryDigit_def digits_def js_def cu_def

lemma isNaN_samples:
  "isNaN (js ''notanumber'') \<and> \<not> isNaN (js ''123'') \<and>
   \<not> isNaN (0xA0 # js ''08129999999'')"
  by (simp add: isNaN_defs Let_def)

lemma gate_rejected:
  assumes "type q = ACTIVITY_RING \<or> type q = ACTIVITY_INBOX"
    and "addressAllowed (app_config app) (address q) \<noteq> Some True"
  shows "\<not> gate app t q"
  using assms by (auto simp: gate_def Let_def)

lemma processQueue_known:
  assumes "get app (imsi q) = Some t"
  shows "processQueue app ok store q =
           \<lparr> pq_store = (if ok then update_row store (qid q) 1 (if gate app t q then 1 else 0)
                         else store),
             pq_row = (fst (if gate app t q
                            then forEach (plugin_callback t) (plugins app) (q, [])
                            else (q, [])))
                      \<lparr>processed := 1, status := (if gate app t q then 1 else 0)\<rparr>,
             pq_emitted = (if gate app t q \<and> length (gwclients app) \<noteq> 0
                           then notify_clients t q (gwclients app) else []),
             pq_handled = snd (if gate app t q
                               then forEach (plugin_callback t) (plugins app) (q, [])
                               else (q, [])),
             pq_done = 1 \<rparr>"
  using assms by (simp add: processQueue_def Let_def)

lemma processQueue_rejected:
  assumes "get app (imsi q) = Some t" and "\<not> gate app t q"
  shows "pq_row (processQueue app ok store q) = q\<lparr>processed := 1, status := 0\<rparr> \<and>
         pq_emitted (processQueue app ok store q) = [] \<and>
         pq_handled (processQueue app ok store q) = [] \<and>
         pq_done (processQueue app ok store q) = 1 \<and>
         pq_store (processQueue app True store q) =
           map (\<lambda>r. if qid r = qid q then r\<lparr>processed := 1, status := 0\<rparr> else r) store \<and>
         pq_store (processQueue app False store q) = store"
  using assms(2) unfolding processQueue_known [OF assms(1)]
  by (simp add: update_row_def)

lemma marked_row_stored:
  assumes "q \<in> set store"
  shows "q\<lparr>processed := p, status := s\<rparr> \<in>
           set (map (\<lambda>r. if qid r = qid q then r\<lparr>processed := p, status := s\<rparr> else r) store)"
proof -
  let ?F = "\<lambda>r. if qid r = qid q then r\<lparr>processed := p, status := s\<rparr> else r"
  have e: "?F q = q\<lparr>processed := p, status := s\<rparr>"
    by (simp only: if_True refl)
  from assms have "?F q \<in> ?F ` set store" by (rule imageI)
  then have "?F q \<in> set (map ?F store)" by (simp only: set_map)
  then show ?thesis by (simp only: e)
qed

lemma processQueue_unknown:
  assumes "get app (imsi q) = None"
  shows "processQueue app ok store q =
           \<lparr> pq_store = store, pq_row = q, pq_emitted = [], pq_handled = [], pq_done = 1 \<rparr>"
  using assms by (simp add: processQueue_def)

lemma unknown_rounds:
  assumes "get app (imsi q) = None"
  shows "((\<lambda>s. pq_store (processQueue app ok s q)) ^^ n) store = store"
  by (induction n) (simp_all add: processQueue_unknown [OF assms])

text \<open>
  C7, as the code has it. \<^verbatim>\<open>addressAllowed\<close> does not allow an address that is not a
  number, nor one of length at most \<open>premiumlen\<close> (5 when not configured or 0), nor
  a blacklisted one, and allows every other address; \<open>notanumber\<close> and, with the
  default length, \<open>123\<close> are not allowed. A Ring or Inbox row of a registered channel
  whose address is not allowed gets no fan-out, and \<^verbatim>\<open>GwQueue.update\<close> marks it
  \<open>processed = 1\<close> and \<open>status = 0\<close>: the in-memory row, and in the table exactly the
  rows with its id when the update succeeds. A row whose channel is not registered
  does not reach the gate and stays as it is.
\<close>

theorem address_gate:
  "(isNaN addr \<longrightarrow> addressAllowed cfg addr \<noteq> Some True) \<and>
   (length addr \<le> premiumlen_or cfg \<longrightarrow> addressAllowed cfg addr \<noteq> Some True) \<and>
   (addr \<in> set (blacklists_or cfg) \<longrightarrow> addressAllowed cfg addr \<noteq> Some True) \<and>
   (\<not> isNaN addr \<and> premiumlen_or cfg < length addr \<and> addr \<notin> set (blacklists_or cfg) \<longrightarrow>
      addressAllowed cfg addr = Some True) \<and>
   addressAllowed cfg addr =
     (if addr = [] then None
      else Some (\<not> isNaN addr \<and> premiumlen_or cfg < length addr \<and>
                 addr \<notin> set (blacklists_or cfg))) \<and>
   (premiumlen cfg = None \<or> premiumlen cfg = Some 0 \<longrightarrow> premiumlen_or cfg = 5) \<and>
   (0 < n \<and> premiumlen cfg = Some n \<longrightarrow> premiumlen_or cfg = n) \<and>
   (blacklists cfg = None \<longrightarrow> blacklists_or cfg = []) \<and>
   (blacklists cfg = Some bs \<longrightarrow> blacklists_or cfg = bs) \<and>
   isNaN (js ''notanumber'') \<and> \<not> isNaN (js ''123'') \<and>
   \<not> isNaN (0xA0 # js ''08129999999'') \<and>
   addressAllowed cfg (js ''notanumber'') \<noteq> Some True \<and>
   (premiumlen cfg = None \<longrightarrow> addressAllowed cfg (js ''123'') \<noteq> Some True) \<and>
   (get app (imsi q) = Some t \<and>
    (type q = ACTIVITY_RING \<or> type q = ACTIVITY_INBOX) \<and>
    addressAllowed (app_config app) (address q) \<noteq> Some True \<longrightarrow>
      pq_row (processQueue app ok store q) = q\<lparr>processed := 1, status := 0\<rparr> \<and>
      pq_emitted (processQueue app ok store q) = [] \<and>
      pq_handled (processQueue app ok store q) = [] \<and>
      pq_done (processQueue app ok store q) = 1 \<and>
      pq_store (processQueue app True store q) =
        map (\<lambda>r. if qid r = qid q then r\<lparr>processed := 1, status := 0\<rparr> else r) store \<and>
      pq_store (processQueue app False store q) = store \<and>
      (q \<in> set store \<longrightarrow>
         q\<lparr>processed := 1, status := 0\<rparr> \<in> set (pq_store (processQueue app True store q)))) \<and>
   (get app (imsi q) = None \<longrightarrow>
      pq_row (processQueue app ok store q) = q \<and>
      pq_store (processQueue app ok store q) = store)"
proof (intro conjI impI)
  show "isNaN addr \<Longrightarrow> addressAllowed cfg addr \<noteq> Some True"
    by (simp add: addressAllowed_iff)
  show "length addr \<le> premiumlen_or cfg \<Longrightarrow> addressAllowed cfg addr \<noteq> Some True"
    by (simp add: addressAllowed_iff)
  show "addr \<in> set (blacklists_or cfg) \<Longrightarrow> addressAllowed cfg addr \<noteq> Some True"
    by (simp add: addressAllowed_iff)
  show "\<not> isNaN addr \<and> premiumlen_or cfg < length addr \<and> addr \<notin> set (blacklists_or cfg) \<Longrightarrow>
      addressAllowed cfg addr = Some True"
    by (simp add: addressAllowed_iff)
  show "addressAllowed cfg addr =
     (if addr = [] then None
      else Some (\<not> isNaN addr \<and> premiumlen_or cfg < length addr \<and>
                 addr \<notin> set (blacklists_or cfg)))"
    by (rule addressAllowed_result)
  show "premiumlen cfg = None \<or> premiumlen cfg = Some 0 \<Longrightarrow> premiumlen_or cfg = 5"
    by (auto simp: premiumlen_or_def)
  show "0 < n \<and> premiumlen cfg = Some n \<Longrightarrow> premiumlen_or cfg = n"
    by (simp add: premiumlen_or_def)
  show "blacklists cfg = None \<Longrightarrow> blacklists_or cfg = []"
    by (simp add: blacklists_or_def)
  show "blacklists cfg = Some bs \<Longrightarrow> blacklists_or cfg = bs"
    by (simp add: blacklists_or_def)
  show "isNaN (js ''notanumber'')" "\<not> isNaN (js ''123'')"
    "\<not> isNaN (0xA0 # js ''08129999999'')"
    using isNaN_samples by simp_all
  show "addressAllowed cfg (js ''notanumber'') \<noteq> Some True"
    using isNaN_samples by (simp add: addressAllowed_iff)
  show "premiumlen cfg = None \<Longrightarrow> addressAllowed cfg (js ''123'') \<noteq> Some True"
    by (simp add: addressAllowed_iff premiumlen_or_def js_def)
next
  assume h: "get app (imsi q) = Some t \<and>
    (type q = ACTIVITY_RING \<or> type q = ACTIVITY_INBOX) \<and>
    addressAllowed (app_config app) (address q) \<noteq> Some True"
  then have g: "\<not> gate app t q" by (simp add: gate_rejected)
  from h have k: "get app (imsi q) = Some t" by simp
  note R = processQueue_rejected [OF k g]
  show "pq_row (processQueue app ok store q) = q\<lparr>processed := 1, status := 0\<rparr>"
    "pq_emitted (processQueue app ok store q) = []"
    "pq_handled (processQueue app ok store q) = []"
    "pq_done (processQueue app ok store q) = 1"
    "pq_store (processQueue app True store q) =
        map (\<lambda>r. if qid r = qid q then r\<lparr>processed := 1, status := 0\<rparr> else r) store"
    "pq_store (processQueue app False store q) = store"
    using R [of ok store] by simp_all
  show "q\<lparr>processed := 1, status := 0\<rparr> \<in> set (pq_store (processQueue app True store q))"
    if "q \<in> set store"
    using R [of True store] marked_row_stored [OF that, where p = 1 and s = 0] by simp
next
  assume "get app (imsi q) = None"
  then show "pq_row (processQueue app ok store q) = q"
    "pq_store (processQueue app ok store q) = store"
    by (simp_all add: processQueue_unknown)
qed

theorem address_gate_witness:
  "isNaN (js ''notanumber'') \<and>
   addressAllowed example_config (js ''notanumber'') \<noteq> Some True \<and>
   premiumlen example_config = None \<and>
   length (js ''123'') \<le> premiumlen_or example_config \<and>
   addressAllowed example_config (js ''123'') \<noteq> Some True \<and>
   js ''08123456789'' \<in> set (blacklists_or example_config) \<and>
   addressAllowed example_config (js ''08123456789'') \<noteq> Some True \<and>
   \<not> isNaN (js ''08129999999'') \<and>
   addressAllowed example_config (js ''08129999999'') = Some True \<and>
   get example_app (imsi (example_row 7 ACTIVITY_RING 20 ''123'')) =
     Some (example_term ''510101234567890'' 20) \<and>
   example_row 7 ACTIVITY_RING 20 ''123'' \<in> set [example_row 7 ACTIVITY_RING 20 ''123''] \<and>
   pq_row (processQueue example_app True
     [example_row 7 ACTIVITY_RING 20 ''123''] (example_row 7 ACTIVITY_RING 20 ''123'')) =
     (example_row 7 ACTIVITY_RING 20 ''123'')\<lparr>processed := 1, status := 0\<rparr> \<and>
   (example_row 7 ACTIVITY_RING 20 ''123'')\<lparr>processed := 1, status := 0\<rparr> \<in>
     set (pq_store (processQueue example_app True
       [example_row 7 ACTIVITY_RING 20 ''123''] (example_row 7 ACTIVITY_RING 20 ''123'')))"
proof -
  let ?q = "example_row 7 ACTIVITY_RING 20 ''123''"
  have n1: "isNaN (js ''notanumber'')" by (simp add: isNaN_defs Let_def)
  have n2: "\<not> isNaN (js ''08129999999'')" by (simp add: isNaN_defs Let_def)
  have p: "premiumlen example_config = None" by (simp add: example_config_def)
  have p5: "premiumlen_or example_config = 5"
    using address_gate [of _ example_config] p by blast
  have s: "length (js ''123'') \<le> premiumlen_or example_config" by (simp add: p5 js_def)
  have bl: "blacklists_or example_config = [js ''08123456789'']"
    by (simp add: blacklists_or_def example_config_def)
  have b: "js ''08123456789'' \<in> set (blacklists_or example_config)"
    by (simp add: bl)
  have ne: "js ''08129999999'' \<noteq> js ''08123456789''" by (simp add: js_def cu_def)
  have ok: "premiumlen_or example_config < length (js ''08129999999'') \<and>
            js ''08129999999'' \<notin> set (blacklists_or example_config)"
    unfolding p5 bl using ne by (simp add: js_def)
  have g: "get example_app (imsi ?q) = Some (example_term ''510101234567890'' 20)"
    by (simp add: get_def example_app_def example_row_def example_term_def)
  have r: "type ?q = ACTIVITY_RING" "address ?q = js ''123''"
    "app_config example_app = example_config"
    by (simp_all add: example_row_def example_app_def)
  have m: "?q \<in> set [?q]" by simp
  note A = address_gate [of "js ''notanumber''" example_config]
  note B = address_gate [of "js ''123''" example_config _ _ example_app ?q
      "example_term ''510101234567890'' 20" True "[?q]"]
  note C = address_gate [of "js ''08123456789''" example_config]
  note D = address_gate [of "js ''08129999999''" example_config]
  from A n1 have 1: "addressAllowed example_config (js ''notanumber'') \<noteq> Some True" by blast
  from B s have 2: "addressAllowed example_config (js ''123'') \<noteq> Some True" by blast
  from C b have 3: "addressAllowed example_config (js ''08123456789'') \<noteq> Some True" by blast
  from D n2 ok have 4: "addressAllowed example_config (js ''08129999999'') = Some True" by blast
  from 2 r have x: "addressAllowed (app_config example_app) (address ?q) \<noteq> Some True" by simp
  from B g r(1) x have 5: "pq_row (processQueue example_app True [?q] ?q) =
      ?q\<lparr>processed := 1, status := 0\<rparr>"
    by blast
  from B g r(1) x m have 6: "?q\<lparr>processed := 1, status := 0\<rparr> \<in>
      set (pq_store (processQueue example_app True [?q] ?q))"
    by blast
  show ?thesis using n1 1 p s 2 b 3 n2 4 g m 5 6 by blast
qed

text \<open>
  C7 as stated fails for a row whose channel is not registered: the Ring row with
  the address \<open>123\<close>, which the gate does not allow, is left unprocessed, in memory
  and in the table.
\<close>

theorem address_gate_counterexample:
  "type ((example_row 7 ACTIVITY_RING 20 ''123'')\<lparr>imsi := ''000''\<rparr>) = ACTIVITY_RING \<and>
   addressAllowed (app_config example_app)
     (address ((example_row 7 ACTIVITY_RING 20 ''123'')\<lparr>imsi := ''000''\<rparr>)) \<noteq> Some True \<and>
   processed (pq_row (processQueue example_app True
     [(example_row 7 ACTIVITY_RING 20 ''123'')\<lparr>imsi := ''000''\<rparr>]
     ((example_row 7 ACTIVITY_RING 20 ''123'')\<lparr>imsi := ''000''\<rparr>))) = 0 \<and>
   pq_store (processQueue example_app True
     [(example_row 7 ACTIVITY_RING 20 ''123'')\<lparr>imsi := ''000''\<rparr>]
     ((example_row 7 ACTIVITY_RING 20 ''123'')\<lparr>imsi := ''000''\<rparr>)) =
     [(example_row 7 ACTIVITY_RING 20 ''123'')\<lparr>imsi := ''000''\<rparr>] \<and>
   processed ((example_row 7 ACTIVITY_RING 20 ''123'')\<lparr>imsi := ''000''\<rparr>) = 0"
proof -
  let ?q = "(example_row 7 ACTIVITY_RING 20 ''123'')\<lparr>imsi := ''000''\<rparr>"
  have g: "get example_app (imsi ?q) = None"
    by (simp add: get_def example_app_def example_term_def)
  have f: "type ?q = ACTIVITY_RING" "processed ?q = 0" "address ?q = js ''123''"
    "app_config example_app = example_config"
    by (simp_all add: example_row_def example_app_def)
  have "premiumlen_or example_config = 5"
    by (simp add: premiumlen_or_def example_config_def)
  then have a: "addressAllowed (app_config example_app) (address ?q) \<noteq> Some True"
    unfolding f by (simp add: addressAllowed_iff js_def)
  have u: "processQueue example_app True [?q] ?q =
      \<lparr> pq_store = [?q], pq_row = ?q, pq_emitted = [], pq_handled = [], pq_done = 1 \<rparr>"
    by (rule processQueue_unknown [OF g])
  have "processed (pq_row (processQueue example_app True [?q] ?q)) = 0"
    unfolding u using f(2) by simp
  moreover have "pq_store (processQueue example_app True [?q] ?q) = [?q]"
    unfolding u by simp
  ultimately show ?thesis using f(1,2) a by blast
qed

lemma forEach_Nil: "forEach cb [] s = s"
  by (simp add: forEach_def)

lemma forEach_Cons: "forEach cb (x # xs) s = forEach cb xs (fst (cb x s))"
  by (simp add: forEach_def)

lemma plugin_callback_fst:
  "fst (plugin_callback t p (q, hs)) =
     (if in_scope t p then (handle p q, hs @ [p_name p]) else (q, hs))"
  by (simp add: plugin_callback_def Let_def in_scope_def)

lemma plugin_callback_snd:
  "snd (plugin_callback t p (q, hs)) \<longleftrightarrow> in_scope t p \<and> veto (handle p q)"
  by (simp add: plugin_callback_def Let_def in_scope_def)

lemma forEach_plugins:
  "forEach (plugin_callback t) ps (q, hs) =
     (fold (\<lambda>p r. if in_scope t p then handle p r else r) ps q,
      hs @ map p_name (filter (in_scope t) ps))"
proof (induction ps arbitrary: q hs)
  case Nil
  show ?case by (simp add: forEach_Nil)
next
  case (Cons p ps)
  show ?case
  proof (cases "in_scope t p")
    case True
    then show ?thesis
      by (simp add: forEach_Cons plugin_callback_fst Cons.IH)
  next
    case False
    then show ?thesis
      by (simp add: forEach_Cons plugin_callback_fst Cons.IH)
  qed
qed

lemma in_scope_eq:
  "in_scope t = (\<lambda>p. p_group p = None \<or> o_group (options t) = p_group p)"
  by (simp add: in_scope_def fun_eq_iff)

lemma processQueue_passed:
  assumes "get app (imsi q) = Some t" and "gate app t q"
  shows "pq_row (processQueue app ok store q) =
           (fold (\<lambda>p r. if in_scope t p then handle p r else r) (plugins app) q)
             \<lparr>processed := 1, status := 1\<rparr> \<and>
         pq_handled (processQueue app ok store q) =
           map p_name (filter (in_scope t) (plugins app)) \<and>
         pq_done (processQueue app ok store q) = 1 \<and>
         pq_store (processQueue app True store q) =
           map (\<lambda>r. if qid r = qid q then r\<lparr>processed := 1, status := 1\<rparr> else r) store"
  using assms(2) unfolding processQueue_known [OF assms(1)]
  by (simp add: forEach_plugins update_row_def)

text \<open>
  C8. The plugin fan-out applies \<open>handle\<close> of every plugin that has no group or the
  group of the owning channel to the row, in list order, each to the row as the
  plugins before it left it, whether or not \<open>veto\<close> is set on it: the callback's
  \<^verbatim>\<open>return true\<close> on veto ends that callback only. A plugin of another group is
  skipped. When the row passes the gate, the row \<^verbatim>\<open>processQueue\<close> updates is the one
  all these plugins have handled, and it is written back with \<open>processed = 1\<close> and
  \<open>status = 1\<close> whatever the plugins did.
\<close>

theorem plugin_fanout_completes:
  "forEach (plugin_callback t) ps (q, hs) =
     (fold (\<lambda>p r. if p_group p = None \<or> o_group (options t) = p_group p
                   then handle p r else r) ps q,
      hs @ map p_name
        (filter (\<lambda>p. p_group p = None \<or> o_group (options t) = p_group p) ps)) \<and>
   (p_group p = None \<or> o_group (options t) = p_group p \<longrightarrow>
      fst (plugin_callback t p (q, hs)) = (handle p q, hs @ [p_name p]) \<and>
      snd (plugin_callback t p (q, hs)) = veto (handle p q)) \<and>
   (\<not> (p_group p = None \<or> o_group (options t) = p_group p) \<longrightarrow>
      plugin_callback t p (q, hs) = ((q, hs), False)) \<and>
   (get app (imsi q) = Some t \<and> gate app t q \<longrightarrow>
      pq_row (processQueue app ok store q) =
        (fold (\<lambda>p r. if p_group p = None \<or> o_group (options t) = p_group p
                      then handle p r else r) (plugins app) q)
          \<lparr>processed := 1, status := 1\<rparr> \<and>
      pq_handled (processQueue app ok store q) =
        map p_name
          (filter (\<lambda>p. p_group p = None \<or> o_group (options t) = p_group p) (plugins app)) \<and>
      pq_done (processQueue app ok store q) = 1 \<and>
      pq_store (processQueue app True store q) =
        map (\<lambda>r. if qid r = qid q then r\<lparr>processed := 1, status := 1\<rparr> else r) store)"
proof (intro conjI impI)
  show "forEach (plugin_callback t) ps (q, hs) =
     (fold (\<lambda>p r. if p_group p = None \<or> o_group (options t) = p_group p
                   then handle p r else r) ps q,
      hs @ map p_name
        (filter (\<lambda>p. p_group p = None \<or> o_group (options t) = p_group p) ps))"
    using forEach_plugins [of t ps q hs] by (simp add: in_scope_eq)
next
  assume s: "p_group p = None \<or> o_group (options t) = p_group p"
  then have "in_scope t p" by (simp add: in_scope_def)
  then show "fst (plugin_callback t p (q, hs)) = (handle p q, hs @ [p_name p])"
    "snd (plugin_callback t p (q, hs)) = veto (handle p q)"
    by (simp_all add: plugin_callback_fst plugin_callback_snd)
next
  assume "\<not> (p_group p = None \<or> o_group (options t) = p_group p)"
  then have n: "\<not> in_scope t p" by (simp add: in_scope_def)
  show "plugin_callback t p (q, hs) = ((q, hs), False)"
  proof (rule prod_eqI)
    show "fst (plugin_callback t p (q, hs)) = fst ((q, hs), False)"
      using n by (simp add: plugin_callback_fst)
    show "snd (plugin_callback t p (q, hs)) = snd ((q, hs), False)"
      using n by (simp add: plugin_callback_snd)
  qed
next
  assume h: "get app (imsi q) = Some t \<and> gate app t q"
  then have k: "get app (imsi q) = Some t" and g: "gate app t q" by simp_all
  note P = processQueue_passed [OF k g]
  show "pq_row (processQueue app ok store q) =
        (fold (\<lambda>p r. if p_group p = None \<or> o_group (options t) = p_group p
                      then handle p r else r) (plugins app) q)
          \<lparr>processed := 1, status := 1\<rparr>"
    using P [of ok store] by (simp add: in_scope_eq)
  show "pq_handled (processQueue app ok store q) =
        map p_name
          (filter (\<lambda>p. p_group p = None \<or> o_group (options t) = p_group p) (plugins app))"
    using P [of ok store] by (simp add: in_scope_eq)
  show "pq_done (processQueue app ok store q) = 1"
    "pq_store (processQueue app True store q) =
        map (\<lambda>r. if qid r = qid q then r\<lparr>processed := 1, status := 1\<rparr> else r) store"
    using P [of ok store] by simp_all
qed

theorem plugin_fanout_completes_witness:
  "get example_app (imsi (example_row 9 ACTIVITY_CUSD 20 ''*123#'')) =
     Some (example_term ''510101234567890'' 20) \<and>
   gate example_app (example_term ''510101234567890'' 20)
     (example_row 9 ACTIVITY_CUSD 20 ''*123#'') \<and>
   veto (handle (hd (plugins example_app)) (example_row 9 ACTIVITY_CUSD 20 ''*123#'')) \<and>
   pq_handled (processQueue example_app True [example_row 9 ACTIVITY_CUSD 20 ''*123#'']
     (example_row 9 ACTIVITY_CUSD 20 ''*123#'')) = [''first'', ''second''] \<and>
   pq_row (processQueue example_app True [example_row 9 ACTIVITY_CUSD 20 ''*123#'']
     (example_row 9 ACTIVITY_CUSD 20 ''*123#'')) =
     (example_row 9 ACTIVITY_CUSD 20 ''*123#'')
       \<lparr>data := ''hello+second'', processed := 1, status := 1, veto := True\<rparr>"
proof -
  let ?q = "example_row 9 ACTIVITY_CUSD 20 ''*123#''"
  let ?t = "example_term ''510101234567890'' 20"
  have g: "get example_app (imsi ?q) = Some ?t"
    by (simp add: get_def example_app_def example_row_def example_term_def)
  have p: "gate example_app ?t ?q"
    by (simp add: gate_def example_row_def activity_defs)
  have v: "veto (handle (hd (plugins example_app)) ?q)"
    by (simp add: example_app_def example_plugins_def)
  have f: "map p_name (filter (\<lambda>p. p_group p = None \<or> o_group (options ?t) = p_group p)
      (plugins example_app)) = [''first'', ''second'']"
    by (simp add: example_app_def example_plugins_def example_term_def example_options_def)
  have r: "(fold (\<lambda>p r. if p_group p = None \<or> o_group (options ?t) = p_group p
                      then handle p r else r) (plugins example_app) ?q)
          \<lparr>processed := 1, status := 1\<rparr> =
        ?q\<lparr>data := ''hello+second'', processed := 1, status := 1, veto := True\<rparr>"
    by (simp add: example_app_def example_plugins_def example_term_def example_options_def
        example_row_def)
  note T = plugin_fanout_completes [of ?t "[]" ?q "[]" _ example_app True "[?q]"]
  from T g p have "pq_handled (processQueue example_app True [?q] ?q) =
      map p_name (filter (\<lambda>p. p_group p = None \<or> o_group (options ?t) = p_group p)
        (plugins example_app))"
    by blast
  then have 1: "pq_handled (processQueue example_app True [?q] ?q) = [''first'', ''second'']"
    unfolding f .
  from T g p have "pq_row (processQueue example_app True [?q] ?q) =
      (fold (\<lambda>p r. if p_group p = None \<or> o_group (options ?t) = p_group p
                      then handle p r else r) (plugins example_app) ?q)
          \<lparr>processed := 1, status := 1\<rparr>"
    by blast
  then have 2: "pq_row (processQueue example_app True [?q] ?q) =
      ?q\<lparr>data := ''hello+second'', processed := 1, status := 1, veto := True\<rparr>"
    unfolding r .
  show ?thesis using g p v 1 2 by blast
qed

text \<open>
  C9. When the row's \<open>imsi\<close> names no registered channel, \<^verbatim>\<open>processQueue\<close> leaves the
  queue table and the row as they are, notifies no socket client, calls no plugin,
  and calls \<open>done\<close> once. An unprocessed Ring, Inbox or CUSD row of the table is then
  still in the snapshot of every later reload, however often it has been processed.
\<close>

theorem unknown_channel_untouched:
  assumes "get app (imsi q) = None"
  shows "processQueue app ok store q =
           \<lparr> pq_store = store, pq_row = q, pq_emitted = [], pq_handled = [], pq_done = 1 \<rparr> \<and>
         ((\<lambda>s. pq_store (processQueue app ok s q)) ^^ n) store = store \<and>
         (q \<in> set store \<and> processed q = 0 \<and>
          (type q = ACTIVITY_RING \<or> type q = ACTIVITY_INBOX \<or> type q = ACTIVITY_CUSD) \<longrightarrow>
            q \<in> set (activity_getQueues
              (((\<lambda>s. pq_store (processQueue app ok s q)) ^^ n) store)))"
proof -
  have 1: "processQueue app ok store q =
      \<lparr> pq_store = store, pq_row = q, pq_emitted = [], pq_handled = [], pq_done = 1 \<rparr>"
    by (rule processQueue_unknown [OF assms])
  have 2: "((\<lambda>s. pq_store (processQueue app ok s q)) ^^ n) store = store"
    by (rule unknown_rounds [OF assms])
  have "q \<in> set (activity_getQueues store)"
    if "q \<in> set store \<and> processed q = 0 \<and>
        (type q = ACTIVITY_RING \<or> type q = ACTIVITY_INBOX \<or> type q = ACTIVITY_CUSD)"
    using that by (auto simp: activity_getQueues_def activity_where_def)
  then have 3: "q \<in> set store \<and> processed q = 0 \<and>
          (type q = ACTIVITY_RING \<or> type q = ACTIVITY_INBOX \<or> type q = ACTIVITY_CUSD) \<longrightarrow>
            q \<in> set (activity_getQueues
              (((\<lambda>s. pq_store (processQueue app ok s q)) ^^ n) store))"
    unfolding 2 by blast
  show ?thesis using 1 2 3 by blast
qed

theorem unknown_channel_untouched_witness:
  "get example_app (imsi ((example_row 4 ACTIVITY_INBOX 20 ''08129999999'')\<lparr>imsi := ''000''\<rparr>))
     = None \<and>
   pq_store (processQueue example_app True
     [(example_row 4 ACTIVITY_INBOX 20 ''08129999999'')\<lparr>imsi := ''000''\<rparr>]
     ((example_row 4 ACTIVITY_INBOX 20 ''08129999999'')\<lparr>imsi := ''000''\<rparr>)) =
     [(example_row 4 ACTIVITY_INBOX 20 ''08129999999'')\<lparr>imsi := ''000''\<rparr>] \<and>
   pq_done (processQueue example_app True
     [(example_row 4 ACTIVITY_INBOX 20 ''08129999999'')\<lparr>imsi := ''000''\<rparr>]
     ((example_row 4 ACTIVITY_INBOX 20 ''08129999999'')\<lparr>imsi := ''000''\<rparr>)) = 1 \<and>
   (example_row 4 ACTIVITY_INBOX 20 ''08129999999'')\<lparr>imsi := ''000''\<rparr> \<in>
     set (activity_getQueues (((\<lambda>s. pq_store (processQueue example_app True s
       ((example_row 4 ACTIVITY_INBOX 20 ''08129999999'')\<lparr>imsi := ''000''\<rparr>))) ^^ 3)
       [(example_row 4 ACTIVITY_INBOX 20 ''08129999999'')\<lparr>imsi := ''000''\<rparr>]))"
proof -
  let ?q = "(example_row 4 ACTIVITY_INBOX 20 ''08129999999'')\<lparr>imsi := ''000''\<rparr>"
  have g: "get example_app (imsi ?q) = None"
    by (simp add: get_def example_app_def example_term_def)
  have h: "?q \<in> set [?q] \<and> processed ?q = 0 \<and>
      (type ?q = ACTIVITY_RING \<or> type ?q = ACTIVITY_INBOX \<or> type ?q = ACTIVITY_CUSD)"
    by (simp add: example_row_def)
  note T = unknown_channel_untouched [OF g, of True "[?q]" 3]
  from T have "processQueue example_app True [?q] ?q =
      \<lparr> pq_store = [?q], pq_row = ?q, pq_emitted = [], pq_handled = [], pq_done = 1 \<rparr>"
    by blast
  then have 1: "pq_store (processQueue example_app True [?q] ?q) = [?q] \<and>
      pq_done (processQueue example_app True [?q] ?q) = 1"
    by simp
  from T h have 2: "?q \<in> set (activity_getQueues
      (((\<lambda>s. pq_store (processQueue example_app True s ?q)) ^^ 3) [?q]))"
    by blast
  show ?thesis using g 1 2 by blast
qed

end
